theory Spec2Isabelle
  imports Main "HOL-Library.AList"
begin

section \<open>JavaScript values\<close>

text \<open>
  The engine (src/html.js, and its refactored twin src/unnamed/part_001) is JavaScript.
  Three kinds of values occur:
  \<^item> \<open>jv\<close>: the JSON-like values a caller assigns to a hook (\<open>App.data.hook = value\<close>);
  \<^item> \<open>sv\<close>: the values held by the proxy target. The \<open>set\<close> trap only ever stores the
    fresh plain object \<open>listener\<close>, and \<open>deepMerge\<close> only ever stores a fresh \<open>{}\<close> or a
    value that is not a truthy object, so an array never enters the store: \<open>sv\<close> has no
    array constructor;
  \<^item> \<open>dv\<close>: the values of a node descriptor, which may be functions (evaluators). A
    function is its source text (what \<open>toString\<close> returns) and its behaviour on the
    store slice it is called with; the further arguments \<open>e\<close> and \<open>c\<close> are fixed modules.
  Numbers are integers (no floating point). Objects are association lists in insertion
  order, read with \<open>map_of\<close> (JavaScript enumerates keys that are array indices first; the
  order of keys decides the order of attributes only).

  An object also has the members it inherits from its prototype (\<open>constructor\<close>,
  \<open>toString\<close>, \<open>__proto__\<close>, ...): built-in functions and prototype objects of the
  JavaScript engine. Reading one through the data proxy yields \<open>SNative holder name\<close>, the
  member \<open>name\<close> found on the prototype \<open>holder\<close>; the prototypes are the standard ones,
  with no member added to or removed from them. What the engine does inside a built-in
  is not followed: \<open>Unmodelled\<close> is not an exception of the engine, it marks the inputs on
  which the code goes on there (a tether that leads through a built-in, a written value
  with a key \<open>__proto__\<close>, a number written in a notation other than decimal digits).
\<close>

datatype err =
    TypeError
  | ReferenceError
  | SyntaxError
  | InvalidStringifiedFunction
  | DOMException
  | Thrown string
  | OutOfFuel
  | Unmodelled

datatype jv = JUndef | JNull | JBool bool | JNum int | JStr string
  | JArr "jv list" | JObj "(string \<times> jv) list"

datatype sv = SUndef | SNull | SBool bool | SNum int | SStr string
  | SObj "(string \<times> sv) list"
  | SNative string string

datatype dv = DUndef | DNull | DBool bool | DNum int | DStr string
  | DArr "dv list" | DObj "(string \<times> dv) list"
  | DFun string "sv \<Rightarrow> err + dv"

subsection \<open>Index keys\<close>

definition code :: "char \<Rightarrow> nat" where
  "code c = of_char c"

definition digit_char :: "nat \<Rightarrow> char" where
  "digit_char d = char_of (code (CHR ''0'') + d)"

function string_of_nat :: "nat \<Rightarrow> string" where
  "string_of_nat n =
     (if n < 10 then [digit_char n] else string_of_nat (n div 10) @ [digit_char (n mod 10)])"
  by pat_completeness auto
termination
  by (relation "measure id") auto

definition is_digit :: "char \<Rightarrow> bool" where
  "is_digit c = (code (CHR ''0'') \<le> code c \<and> code c \<le> code (CHR ''9''))"

definition nat_of_digits :: "string \<Rightarrow> nat" where
  "nat_of_digits s = foldl (\<lambda>a c. 10 * a + (code c - code (CHR ''0''))) 0 s"

text \<open>An array index is a canonical decimal numeral: \<open>"0"\<close>, \<open>"7"\<close>, \<open>"10"\<close>, not \<open>"07"\<close>.\<close>

definition index_of_key :: "string \<Rightarrow> nat option" where
  "index_of_key k =
     (if k \<noteq> [] \<and> list_all is_digit k \<and> (k = ''0'' \<or> hd k \<noteq> CHR ''0'')
      then Some (nat_of_digits k) else None)"

definition index_keys :: "nat \<Rightarrow> string list" where
  "index_keys n = map string_of_nat [0..<n]"

section \<open>DataStore: deepMerge and the data proxy\<close>

text \<open>
  \<^verbatim>\<open>
  deepMerge(target, source) {
    for (const key in source) {
      if (source[key] && typeof source[key] === "object") {
        if (!target[key] || typeof target[key] !== "object") {
          target[key] = {};
        }
        this.deepMerge(target[key], source[key]);
      } else {
        target[key] = source[key];
      }
    }
    return target;
  }
  \<close>
  \<open>for ... in\<close> enumerates the keys of an object, the indices of an array and the indices
  of a string; a number, a boolean, \<open>null\<close> and \<open>undefined\<close> have none.
\<close>

fun enumerable :: "jv \<Rightarrow> (string \<times> jv) list" where
  "enumerable (JObj kvs) = kvs"
| "enumerable (JArr xs) = zip (index_keys (length xs)) xs"
| "enumerable (JStr s) = zip (index_keys (length s)) (map (\<lambda>c. JStr [c]) s)"
| "enumerable _ = []"

text \<open>\<open>source[key] && typeof source[key] === "object"\<close>: an object or an array, not \<open>null\<close>.\<close>

fun truthy_object :: "jv \<Rightarrow> bool" where
  "truthy_object (JObj _) = True"
| "truthy_object (JArr _) = True"
| "truthy_object _ = False"

text \<open>
  A value that is not a truthy object is stored as it is (the \<open>else\<close> branch); \<open>stored\<close>
  is not applied to an object or an array.
\<close>

fun stored :: "jv \<Rightarrow> sv" where
  "stored JUndef = SUndef"
| "stored JNull = SNull"
| "stored (JBool b) = SBool b"
| "stored (JNum n) = SNum n"
| "stored (JStr s) = SStr s"
| "stored (JArr xs) = SObj []"
| "stored (JObj kvs) = SObj []"

text \<open>
  \<open>target[key]\<close> when it is a truthy object, \<open>{}\<close> otherwise: the object the recursive
  call merges into.
\<close>

definition merge_target :: "(string \<times> sv) list \<Rightarrow> string \<Rightarrow> (string \<times> sv) list" where
  "merge_target target key = (case map_of target key of Some (SObj kvs) \<Rightarrow> kvs | _ \<Rightarrow> [])"

text \<open>
  The loop runs over the properties of an object (\<open>deepMerge_props\<close>), over the elements
  of an array with their indices (\<open>deepMerge_elems\<close>), or over the characters of a string.
  An assignment \<open>target[key] = ...\<close> replaces the value of an existing key in place and
  appends a new key.
\<close>

fun deepMerge :: "(string \<times> sv) list \<Rightarrow> jv \<Rightarrow> (string \<times> sv) list"
and deepMerge_props :: "(string \<times> sv) list \<Rightarrow> (string \<times> jv) list \<Rightarrow> (string \<times> sv) list"
and deepMerge_elems :: "(string \<times> sv) list \<Rightarrow> nat \<Rightarrow> jv list \<Rightarrow> (string \<times> sv) list"
where
  "deepMerge target (JObj kvs) = deepMerge_props target kvs"
| "deepMerge target (JArr xs) = deepMerge_elems target 0 xs"
| "deepMerge target (JStr s) =
     fold (\<lambda>(k, c). AList.update k (SStr [c])) (zip (index_keys (length s)) s) target"
| "deepMerge target JUndef = target"
| "deepMerge target JNull = target"
| "deepMerge target (JBool b) = target"
| "deepMerge target (JNum n) = target"
| "deepMerge_props target [] = target"
| "deepMerge_props target ((key, v) # rest) =
     deepMerge_props
       (if truthy_object v
        then AList.update key (SObj (deepMerge (merge_target target key) v)) target
        else AList.update key (stored v) target)
       rest"
| "deepMerge_elems target i [] = target"
| "deepMerge_elems target i (v # rest) =
     deepMerge_elems
       (if truthy_object v
        then AList.update (string_of_nat i)
               (SObj (deepMerge (merge_target target (string_of_nat i)) v)) target
        else AList.update (string_of_nat i) (stored v) target)
       (Suc i) rest"

text \<open>One turn of the loop, for the key and the value \<open>source[key]\<close>.\<close>

definition merge_entry :: "string \<times> jv \<Rightarrow> (string \<times> sv) list \<Rightarrow> (string \<times> sv) list" where
  "merge_entry kv target =
     (if truthy_object (snd kv)
      then AList.update (fst kv) (SObj (deepMerge (merge_target target (fst kv)) (snd kv))) target
      else AList.update (fst kv) (stored (snd kv)) target)"

text \<open>
  \<^verbatim>\<open>
  get(target, listenerId) {
    const keys = listenerId.split(".");
    let current = target;
    for (let i = 0; i < keys.length; i++) {
      if (current[keys[i]] === undefined) {
        return null; // Return null if any part of the path does not exist
      }
      current = current[keys[i]];
    }
    return current;
  }
  \<close>
\<close>

fun split_on :: "char \<Rightarrow> string \<Rightarrow> string list" where
  "split_on c [] = [[]]"
| "split_on c (x # xs) =
     (if x = c then [] # split_on c xs
      else (case split_on c xs of [] \<Rightarrow> [[x]] | w # ws \<Rightarrow> (x # w) # ws))"

text \<open>
  The own property names of the standard prototypes. \<open>__proto__\<close> is an accessor of
  \<open>Object.prototype\<close> that yields the prototype of the value it is read from.
\<close>

definition object_prototype :: "string list" where
  "object_prototype =
     [''constructor'', ''__defineGetter__'', ''__defineSetter__'', ''hasOwnProperty'',
      ''__lookupGetter__'', ''__lookupSetter__'', ''isPrototypeOf'', ''propertyIsEnumerable'',
      ''toString'', ''valueOf'', ''__proto__'', ''toLocaleString'']"

definition string_prototype :: "string list" where
  "string_prototype =
     [''constructor'', ''anchor'', ''at'', ''big'', ''blink'', ''bold'', ''charAt'',
      ''charCodeAt'', ''codePointAt'', ''concat'', ''endsWith'', ''fontcolor'', ''fontsize'',
      ''fixed'', ''includes'', ''indexOf'', ''italics'', ''lastIndexOf'', ''link'',
      ''localeCompare'', ''match'', ''matchAll'', ''normalize'', ''padEnd'', ''padStart'',
      ''repeat'', ''replace'', ''replaceAll'', ''search'', ''slice'', ''small'', ''split'',
      ''strike'', ''sub'', ''substr'', ''substring'', ''sup'', ''startsWith'', ''toString'',
      ''trim'', ''trimStart'', ''trimLeft'', ''trimEnd'', ''trimRight'', ''toLocaleLowerCase'',
      ''toLocaleUpperCase'', ''toLowerCase'', ''toUpperCase'', ''valueOf'']"

definition number_prototype :: "string list" where
  "number_prototype =
     [''constructor'', ''toExponential'', ''toFixed'', ''toPrecision'', ''toString'',
      ''valueOf'', ''toLocaleString'']"

definition boolean_prototype :: "string list" where
  "boolean_prototype = [''constructor'', ''toString'', ''valueOf'']"

text \<open>
  The member \<open>k\<close> that a value of the class \<open>holder\<close> inherits, when it has no own
  property \<open>k\<close>: found on the prototype of its class, or else on \<open>Object.prototype\<close>, or
  else \<open>undefined\<close>.
\<close>

definition inherited :: "string \<Rightarrow> string list \<Rightarrow> string \<Rightarrow> sv" where
  "inherited holder names k =
     (if k = ''__proto__'' \<or> k \<in> set names then SNative holder k
      else if k \<in> set object_prototype then SNative ''Object'' k
      else SUndef)"

text \<open>
  \<open>current[key]\<close>: the own property of an object, or else the member it inherits; a
  character or the length of a string, or else a member it inherits (\<open>isWellFormed\<close> and
  \<open>toWellFormed\<close> are members of \<open>String.prototype\<close> in some engines only); the members a
  number or a boolean inherits; a TypeError on \<open>null\<close> and \<open>undefined\<close>.
\<close>

fun getprop :: "sv \<Rightarrow> string \<Rightarrow> err + sv" where
  "getprop (SObj kvs) k =
     Inr (case map_of kvs k of Some v \<Rightarrow> v | None \<Rightarrow> inherited ''Object'' [] k)"
| "getprop (SStr s) k =
     (if k = ''length'' then Inr (SNum (int (length s)))
      else (case index_of_key k of
              Some i \<Rightarrow> Inr (if i < length s then SStr [s ! i] else SUndef)
            | None \<Rightarrow>
                if k = ''isWellFormed'' \<or> k = ''toWellFormed'' then Inl Unmodelled
                else Inr (inherited ''String'' string_prototype k)))"
| "getprop (SNum n) k = Inr (inherited ''Number'' number_prototype k)"
| "getprop (SBool b) k = Inr (inherited ''Boolean'' boolean_prototype k)"
| "getprop SNull k = Inl TypeError"
| "getprop SUndef k = Inl TypeError"
| "getprop (SNative holder name) k = Inl Unmodelled"

fun walk :: "sv \<Rightarrow> string list \<Rightarrow> err + sv" where
  "walk current [] = Inr current"
| "walk current (k # ks) =
     (case getprop current k of
        Inl e \<Rightarrow> Inl e
      | Inr v \<Rightarrow> if v = SUndef then Inr SNull else walk v ks)"

type_synonym store = "(string \<times> sv) list"

definition proxy_get :: "store \<Rightarrow> string \<Rightarrow> err + sv" where
  "proxy_get target listenerId = walk (SObj target) (split_on (CHR ''.'') listenerId)"

text \<open>
  \<^verbatim>\<open>
  set(target, listenerId, value, receiver) {
    let listener = { ...self.data[listenerId] };
    listener = self.deepMerge(listener, value);
    const result = Reflect.set(target, listenerId, listener, receiver);
    const bindings = self.bindings[listenerId];
    if (bindings) {
      bindings.forEach((binding) => { self.emitBinding(listenerId, binding); });
    }
    return result;
  }
  \<close>
  This section is the store half of the trap (the first three statements); the
  notification of the bindings follows the renderer below.

  \<open>{ ...x }\<close> is a fresh object with the own enumerable properties of \<open>x\<close>: a shallow copy.
  A built-in has none.
\<close>

fun spread :: "sv \<Rightarrow> (string \<times> sv) list" where
  "spread (SObj kvs) = kvs"
| "spread (SStr s) = zip (index_keys (length s)) (map (\<lambda>c. SStr [c]) s)"
| "spread _ = []"

text \<open>
  A key \<open>__proto__\<close> of the written value does not name a member of the target:
  \<open>target["__proto__"]\<close> is the prototype of \<open>target\<close>, so that \<open>deepMerge\<close> merges into
  \<open>Object.prototype\<close> itself, or replaces the prototype of \<open>target\<close>. \<open>deepMerge\<close> above is
  the merge of a value without such a key.
\<close>

fun names_proto :: "jv \<Rightarrow> bool"
and names_proto_props :: "(string \<times> jv) list \<Rightarrow> bool"
and names_proto_elems :: "jv list \<Rightarrow> bool"
where
  "names_proto (JObj kvs) = names_proto_props kvs"
| "names_proto (JArr xs) = names_proto_elems xs"
| "names_proto JUndef = False"
| "names_proto JNull = False"
| "names_proto (JBool b) = False"
| "names_proto (JNum n) = False"
| "names_proto (JStr s) = False"
| "names_proto_props [] = False"
| "names_proto_props ((key, v) # rest) =
     (key = ''__proto__'' \<or> names_proto v \<or> names_proto_props rest)"
| "names_proto_elems [] = False"
| "names_proto_elems (v # rest) = (names_proto v \<or> names_proto_elems rest)"

text \<open>
  The copy is shallow: an object-valued child of the slice that was read is shared with
  \<open>listener\<close>, and \<open>deepMerge\<close> merges into it in place. When the hook is a top-level key
  the slice that was read is replaced by \<open>listener\<close> and nothing of this shows. When the
  hook contains a dot, \<open>self.data[listenerId]\<close> read a nested slice, which stays where it
  is with its shared children merged, while \<open>Reflect.set\<close> adds \<open>listener\<close> under the
  literal dotted key (a key the \<open>get\<close> trap never reads, since it splits at dots).
  \<open>merged_in_place\<close> is the slice that was read after the merge; \<open>put_path\<close> puts it back.
\<close>

definition merged_in_place ::
  "(string \<times> sv) list \<Rightarrow> jv \<Rightarrow> (string \<times> sv) list \<Rightarrow> (string \<times> sv) list" where
  "merged_in_place slice value listener =
     map (\<lambda>(k, child).
            (case (child, map_of (enumerable value) k, map_of listener k) of
               (SObj _, Some v, Some child') \<Rightarrow> if truthy_object v then (k, child') else (k, child)
             | _ \<Rightarrow> (k, child)))
         slice"

fun put_path :: "(string \<times> sv) list \<Rightarrow> string list \<Rightarrow> sv \<Rightarrow> (string \<times> sv) list" where
  "put_path kvs [] new = kvs"
| "put_path kvs [k] new = AList.update k new kvs"
| "put_path kvs (k # ks) new =
     (case map_of kvs k of
        Some (SObj sub) \<Rightarrow> AList.update k (SObj (put_path sub ks new)) kvs
      | _ \<Rightarrow> kvs)"

definition store_set :: "store \<Rightarrow> string \<Rightarrow> jv \<Rightarrow> err + store" where
  "store_set target listenerId value =
     (case proxy_get target listenerId of
        Inl e \<Rightarrow> Inl e
      | Inr current \<Rightarrow>
          if names_proto value then Inl Unmodelled else
          let listener = deepMerge (spread current) value;
              target' = (case current of
                           SObj slice \<Rightarrow>
                             put_path target (split_on (CHR ''.'') listenerId)
                               (SObj (merged_in_place slice value listener))
                         | _ \<Rightarrow> target)
          in Inr (AList.update listenerId (SObj listener) target'))"

section \<open>Strings\<close>

text \<open>
  A string is a list of code units; the functions below are the \<open>String.prototype\<close>
  methods and regular expressions the engine uses. White space is ASCII white space and
  the no-break space (code units above 255 are not represented).
\<close>

definition is_upper :: "char \<Rightarrow> bool" where
  "is_upper c = (code (CHR ''A'') \<le> code c \<and> code c \<le> code (CHR ''Z''))"

definition is_lower :: "char \<Rightarrow> bool" where
  "is_lower c = (code (CHR ''a'') \<le> code c \<and> code c \<le> code (CHR ''z''))"

definition to_lower :: "char \<Rightarrow> char" where
  "to_lower c = (if is_upper c then char_of (code c + 32) else c)"

definition to_upper :: "char \<Rightarrow> char" where
  "to_upper c = (if is_lower c then char_of (code c - 32) else c)"

definition is_space :: "char \<Rightarrow> bool" where
  "is_space c = (code c \<in> {9, 10, 11, 12, 13, 32, 160})"

definition starts_with :: "string \<Rightarrow> string \<Rightarrow> bool" where
  "starts_with p s = (take (length p) s = p)"

definition trim :: "string \<Rightarrow> string" where
  "trim s = rev (dropWhile is_space (rev (dropWhile is_space s)))"

text \<open>\<open>s.indexOf(c)\<close>: the first position of \<open>c\<close>, or \<open>-1\<close>.\<close>

definition indexOf :: "char \<Rightarrow> string \<Rightarrow> int" where
  "indexOf c s = (if c \<in> set s then int (length (takeWhile (\<lambda>x. x \<noteq> c) s)) else - 1)"

text \<open>\<open>s.slice(a, b)\<close>: a negative position counts from the end.\<close>

definition slice :: "string \<Rightarrow> int \<Rightarrow> int \<Rightarrow> string" where
  "slice s a b =
     (let n = int (length s);
          from = (if a < 0 then max (n + a) 0 else min a n);
          to = (if b < 0 then max (n + b) 0 else min b n)
      in take (nat (to - from)) (drop (nat from) s))"

text \<open>\<open>str.replace(/[A-Z]/g, (match) => "-" + match.toLowerCase())\<close>\<close>

definition camelToHyphen :: "string \<Rightarrow> string" where
  "camelToHyphen str = concat (map (\<lambda>c. if is_upper c then [CHR ''-'', to_lower c] else [c]) str)"

text \<open>\<open>/[A-Z]/.test(key)\<close> and \<open>/[a-z][A-Z]/.test(str)\<close>\<close>

definition hasUpperCase :: "string \<Rightarrow> bool" where
  "hasUpperCase key = list_ex is_upper key"

fun isCamelCase :: "string \<Rightarrow> bool" where
  "isCamelCase (a # b # rest) = ((is_lower a \<and> is_upper b) \<or> isCamelCase (b # rest))"
| "isCamelCase _ = False"

fun join :: "string \<Rightarrow> string list \<Rightarrow> string" where
  "join sep [] = []"
| "join sep [x] = x"
| "join sep (x # y # rest) = x @ sep @ join sep (y # rest)"

definition string_of_int :: "int \<Rightarrow> string" where
  "string_of_int n = (if n < 0 then CHR ''-'' # string_of_nat (nat (- n)) else string_of_nat (nat n))"

text \<open>
  The conversion of a value to a string (attribute values, text nodes, string
  concatenation): an array joins its elements with commas, \<open>null\<close> and \<open>undefined\<close>
  elements giving the empty string; a function gives its source text.
\<close>

fun is_null :: "dv \<Rightarrow> bool" where
  "is_null DNull = True"
| "is_null _ = False"

fun is_undefined :: "dv \<Rightarrow> bool" where
  "is_undefined DUndef = True"
| "is_undefined _ = False"

fun is_function :: "dv \<Rightarrow> bool" where
  "is_function (DFun src f) = True"
| "is_function _ = False"

fun to_string :: "dv \<Rightarrow> string" where
  "to_string DUndef = ''undefined''"
| "to_string DNull = ''null''"
| "to_string (DBool b) = (if b then ''true'' else ''false'')"
| "to_string (DNum n) = string_of_int n"
| "to_string (DStr s) = s"
| "to_string (DArr xs) =
     join '','' (map (\<lambda>x. if is_null x \<or> is_undefined x then [] else to_string x) xs)"
| "to_string (DObj kvs) = ''[object Object]''"
| "to_string (DFun src f) = src"

fun truthy :: "dv \<Rightarrow> bool" where
  "truthy DUndef = False"
| "truthy DNull = False"
| "truthy (DBool b) = b"
| "truthy (DNum n) = (n \<noteq> 0)"
| "truthy (DStr s) = (s \<noteq> [])"
| "truthy _ = True"

fun truthy_sv :: "sv \<Rightarrow> bool" where
  "truthy_sv SUndef = False"
| "truthy_sv SNull = False"
| "truthy_sv (SBool b) = b"
| "truthy_sv (SNum n) = (n \<noteq> 0)"
| "truthy_sv (SStr s) = (s \<noteq> [])"
| "truthy_sv (SObj kvs) = True"
| "truthy_sv (SNative holder name) = True"

text \<open>\<open>typeof value === "object"\<close>: objects, arrays and \<open>null\<close>.\<close>

fun typeof_object :: "dv \<Rightarrow> bool" where
  "typeof_object DNull = True"
| "typeof_object (DArr xs) = True"
| "typeof_object (DObj kvs) = True"
| "typeof_object _ = False"

text \<open>\<open>Object.keys(v)\<close>, which is also what \<open>for (key in v)\<close> enumerates, and \<open>v[key]\<close>.\<close>

fun own_keys :: "dv \<Rightarrow> string list" where
  "own_keys (DObj kvs) = map fst kvs"
| "own_keys (DArr xs) = index_keys (length xs)"
| "own_keys (DStr s) = index_keys (length s)"
| "own_keys _ = []"

fun member :: "dv \<Rightarrow> string \<Rightarrow> dv" where
  "member (DObj kvs) k = (case map_of kvs k of Some v \<Rightarrow> v | None \<Rightarrow> DUndef)"
| "member (DArr xs) k =
     (if k = ''length'' then DNum (int (length xs))
      else (case index_of_key k of
              Some i \<Rightarrow> if i < length xs then xs ! i else DUndef
            | None \<Rightarrow> DUndef))"
| "member (DStr s) k =
     (if k = ''length'' then DNum (int (length s))
      else (case index_of_key k of
              Some i \<Rightarrow> if i < length s then DStr [s ! i] else DUndef
            | None \<Rightarrow> DUndef))"
| "member _ k = DUndef"

subsection \<open>Recognising a serialized function\<close>

text \<open>
  \<^verbatim>\<open>
  isStringifiedFunction(str) {
    if (typeof str !== "string") { return false; }
    const functionPattern = /^\s*(function\s*\(|\(\s*[^\)]*\)\s*=>)/;
    return functionPattern.test(str);
  }
  \<close>
  After leading white space: \<open>function\<close>, white space, \<open>(\<close>; or \<open>(\<close>, anything up to the
  first \<open>)\<close>, white space, \<open>=>\<close>.
\<close>

definition functionPattern :: "string \<Rightarrow> bool" where
  "functionPattern str =
     (let r = dropWhile is_space str in
        (starts_with ''function'' r
           \<and> starts_with ''('' (dropWhile is_space (drop (length ''function'') r)))
      \<or> (starts_with ''('' r
           \<and> CHR '')'' \<in> set (tl r)
           \<and> starts_with ''=>''
                (dropWhile is_space (tl (dropWhile (\<lambda>c. c \<noteq> CHR '')'') (tl r))))))"

fun isStringifiedFunction :: "dv \<Rightarrow> bool" where
  "isStringifiedFunction (DStr str) = functionPattern str"
| "isStringifiedFunction _ = False"

section \<open>The document, the bindings and the host\<close>

text \<open>
  Render targets are DOM nodes. A node has an identity (bindings refer to it, and
  \<open>clearChildren\<close> compares identities), so the document is a heap: the list of all nodes
  ever created, a node's identity being its position. An element carries its namespace,
  its tag name, its attributes in order and its child nodes. \<open>Bootstrap\<close> is the text node
  of the hydration script: its text is the concatenation of its pieces, \<open>Json d\<close> being
  what \<open>JSON.stringify\<close> returns for the data proxy when \<open>d\<close> lists the keys of the proxy
  target with what the \<open>get\<close> trap returns for each.
\<close>

type_synonym nid = nat

datatype piece = Lit string | Json "(string \<times> sv) list"

datatype node =
    Elem string string "(string \<times> string) list" "nid list"
  | Text string
  | Bootstrap "piece list"

datatype tree = TElem string string "(string \<times> string) list" "tree list" | TText string

text \<open>A binding, as pushed on \<open>this.bindings[listenerId]\<close>: \<open>{ element, func, property }\<close>.\<close>

record binding =
  element :: nid
  func :: dv
  property :: string

text \<open>
  \<open>evlog\<close> is instrumentation: it records every call of an evaluator that returns, in
  order, as the first evaluation of a binding site by \<open>render\<close> (\<open>Initial\<close>) or as a
  re-evaluation by \<open>emitBinding\<close> (\<open>Reeval\<close>), with the tether, the element and the
  property. No operation reads it.
\<close>

datatype event = Initial string nid string | Reeval string nid string

record state =
  store :: store
  bindings :: "(string \<times> binding list) list"
  nodes :: "node list"
  evlog :: "event list"

text \<open>
  What the engine takes from its environment: the side it runs on
  (\<open>typeof window === "undefined"\<close>); the JavaScript engine, \<open>evalJS body\<close> being
  \<open>new Function(body)()\<close> and \<open>nativeText name\<close> the text \<open>String(Object.prototype[name])\<close> of a
  built-in function (\<open>function toString() { [native code] }\<close>, with white space that
  depends on the engine); the DOM's validation of names (\<open>setAttribute\<close> and
  \<open>createElementNS\<close>/\<open>setAttributeNS\<close> raise a DOMException on a name they do not accept);
  the HTML parser behind \<open>innerHTML\<close>; the namespaces whose elements have a \<open>dataset\<close>
  (in jsdom, the DOM of the server, those of HTML and SVG; an element of another
  namespace is a plain \<open>Element\<close>); and the text that the bootstrap script imports the
  engine from, \<open>process.env.NODE_ENV === "production" ? process.env.CDN_BASE_URL : ""\<close>.
\<close>

record host =
  isServer :: bool
  evalJS :: "string \<Rightarrow> err + dv"
  nativeText :: "string \<Rightarrow> string"
  validName :: "string \<Rightarrow> bool"
  validQName :: "string option \<Rightarrow> string \<Rightarrow> bool"
  parseHTML :: "string \<Rightarrow> tree list"
  hasDataset :: "string \<Rightarrow> bool"
  cdnBaseUrl :: string

datatype depth = DepthNum int | DepthNull | DepthOther

text \<open>
  The \<open>depth\<close> argument of \<open>render\<close> is only ever compared with \<open>0\<close>. It is a number,
  \<open>null\<close>, or (\<open>DepthOther\<close>) a string or NaN. In the refactored variant \<open>depth + 1\<close> is
  computed from a store value or from a tether (see \<open>setElementAttribute2\<close>); a built-in
  plus one is a string, but for \<open>Number.prototype\<close> and \<open>Boolean.prototype\<close>, which are
  the number \<open>0\<close> and the boolean \<open>false\<close> as objects.
\<close>

fun plus_one_sv :: "sv \<Rightarrow> depth" where
  "plus_one_sv (SNum n) = DepthNum (n + 1)"
| "plus_one_sv SNull = DepthNum 1"
| "plus_one_sv (SBool b) = DepthNum (if b then 2 else 1)"
| "plus_one_sv (SNative holder name) =
     (if name = ''__proto__'' \<and> (holder = ''Number'' \<or> holder = ''Boolean'')
      then DepthNum 1 else DepthOther)"
| "plus_one_sv _ = DepthOther"

fun plus_one_id :: "string option \<Rightarrow> depth" where
  "plus_one_id None = DepthNum 1"
| "plus_one_id (Some s) = DepthOther"

text \<open>What \<open>render\<close> returns: \<open>null\<close>, a node, or the document text of a root element.\<close>

datatype rres = RNull | RNode nid | RDoc nid

subsection \<open>DOM operations\<close>

definition xhtml :: string where
  "xhtml = ''http://www.w3.org/1999/xhtml''"

definition elem_at :: "state \<Rightarrow> nid \<Rightarrow> (string \<times> string \<times> (string \<times> string) list \<times> nid list) option" where
  "elem_at st el =
     (if el < length (nodes st)
      then (case nodes st ! el of Elem ns tag as ks \<Rightarrow> Some (ns, tag, as, ks) | _ \<Rightarrow> None)
      else None)"

definition put_node :: "nid \<Rightarrow> node \<Rightarrow> state \<Rightarrow> state" where
  "put_node el n st = st\<lparr>nodes := (nodes st)[el := n]\<rparr>"

definition new_node :: "node \<Rightarrow> state \<Rightarrow> nid \<times> state" where
  "new_node n st = (length (nodes st), st\<lparr>nodes := nodes st @ [n]\<rparr>)"

definition createTextNode :: "string \<Rightarrow> state \<Rightarrow> nid \<times> state" where
  "createTextNode s st = new_node (Text s) st"

definition createElementNS :: "host \<Rightarrow> string \<Rightarrow> dv \<Rightarrow> state \<Rightarrow> err + (nid \<times> state)" where
  "createElementNS h ns tagName st =
     (if validQName h (Some ns) (to_string tagName)
      then Inr (new_node (Elem ns (to_string tagName) [] []) st)
      else Inl DOMException)"

text \<open>
  A method of \<open>Element\<close> called on something that is not an element is a TypeError.
  \<open>element.setAttribute(name, value)\<close> lower-cases the name on an HTML element, replaces
  the value of an attribute of that name or appends a new attribute.
\<close>

definition dom_name :: "string \<Rightarrow> string \<Rightarrow> string" where
  "dom_name ns name = (if ns = xhtml then map to_lower name else name)"

definition dom_setAttribute :: "host \<Rightarrow> nid \<Rightarrow> string \<Rightarrow> string \<Rightarrow> state \<Rightarrow> err + state" where
  "dom_setAttribute h el name v st =
     (case elem_at st el of
        None \<Rightarrow> Inl TypeError
      | Some (ns, tag, as, ks) \<Rightarrow>
          if validName h name
          then Inr (put_node el (Elem ns tag (AList.update (dom_name ns name) v as) ks) st)
          else Inl DOMException)"

definition dom_setAttributeNS :: "host \<Rightarrow> nid \<Rightarrow> string \<Rightarrow> string \<Rightarrow> state \<Rightarrow> err + state" where
  "dom_setAttributeNS h el name v st =
     (case elem_at st el of
        None \<Rightarrow> Inl TypeError
      | Some (ns, tag, as, ks) \<Rightarrow>
          if validQName h None name
          then Inr (put_node el (Elem ns tag (AList.update name v as) ks) st)
          else Inl DOMException)"

definition dom_removeAttribute :: "nid \<Rightarrow> string \<Rightarrow> state \<Rightarrow> err + state" where
  "dom_removeAttribute el name st =
     (case elem_at st el of
        None \<Rightarrow> Inl TypeError
      | Some (ns, tag, as, ks) \<Rightarrow>
          Inr (put_node el (Elem ns tag (filter (\<lambda>a. fst a \<noteq> dom_name ns name) as) ks) st))"

definition set_childNodes :: "nid \<Rightarrow> nid list \<Rightarrow> state \<Rightarrow> err + state" where
  "set_childNodes el ks st =
     (case elem_at st el of
        None \<Rightarrow> Inl TypeError
      | Some (ns, tag, as, ks0) \<Rightarrow> Inr (put_node el (Elem ns tag as ks) st))"

definition childNodes :: "state \<Rightarrow> nid \<Rightarrow> nid list" where
  "childNodes st el = (case elem_at st el of Some (ns, tag, as, ks) \<Rightarrow> ks | None \<Rightarrow> [])"

text \<open>The nodes handed to \<open>appendChild\<close> and \<open>prepend\<close> are always freshly created ones.\<close>

definition dom_appendChild :: "nid \<Rightarrow> nid \<Rightarrow> state \<Rightarrow> err + state" where
  "dom_appendChild el child st = set_childNodes el (childNodes st el @ [child]) st"

definition dom_prepend :: "nid \<Rightarrow> nid \<Rightarrow> state \<Rightarrow> err + state" where
  "dom_prepend el child st = set_childNodes el (child # childNodes st el) st"

text \<open>\<open>element.children.length > 0\<close>: \<open>children\<close> are the child nodes that are elements.\<close>

definition has_element_children :: "state \<Rightarrow> nid \<Rightarrow> bool" where
  "has_element_children st el = list_ex (\<lambda>k. elem_at st k \<noteq> None) (childNodes st el)"

fun alloc_tree :: "tree \<Rightarrow> node list \<Rightarrow> nid \<times> node list"
and alloc_trees :: "tree list \<Rightarrow> node list \<Rightarrow> nid list \<times> node list" where
  "alloc_tree (TText s) ns = (length ns, ns @ [Text s])"
| "alloc_tree (TElem n t as cs) ns =
     (case alloc_trees cs ns of (ks, ns') \<Rightarrow> (length ns', ns' @ [Elem n t as ks]))"
| "alloc_trees [] ns = ([], ns)"
| "alloc_trees (t # ts) ns =
     (case alloc_tree t ns of (i, ns') \<Rightarrow>
        (case alloc_trees ts ns' of (is, ns'') \<Rightarrow> (i # is, ns'')))"

text \<open>\<open>element.innerHTML = markup\<close>: the children become the parsed markup.\<close>

definition dom_set_innerHTML :: "host \<Rightarrow> nid \<Rightarrow> string \<Rightarrow> state \<Rightarrow> err + state" where
  "dom_set_innerHTML h el markup st =
     (case alloc_trees (parseHTML h markup) (nodes st) of
        (ks, ns') \<Rightarrow> set_childNodes el ks (st\<lparr>nodes := ns'\<rparr>))"

section \<open>The renderer: what the two variants share\<close>

text \<open>
  src/html.js holds the renderer as one function, \<open>render\<close>, with \<open>setElementAttribute\<close>
  beside it; src/unnamed/part_001 is the same engine with \<open>setElementAttribute\<close> and
  \<open>render\<close> split into methods. The pieces of this section have the same text in both
  files (inline in html.js, a method in part_001).
\<close>

definition nonAttributes :: "string list" where
  "nonAttributes = [''children'', ''prepend'', ''append'', ''child'', ''tagName'',
     ''textContent'', ''innerHTML'', ''if'', ''style'']"

text \<open>
  \<^verbatim>\<open>
  setAttribute(element, key, value) {
    element.removeAttribute(key);
    const hasUpperCase = /[A-Z]/.test(key);
    if (hasUpperCase) { element.setAttributeNS(null, key, value); }
    else { element.setAttribute(key, value); }
  }
  \<close>
\<close>

definition setAttribute :: "host \<Rightarrow> nid \<Rightarrow> string \<Rightarrow> dv \<Rightarrow> state \<Rightarrow> err + state" where
  "setAttribute h el key value st =
     (case dom_removeAttribute el key st of
        Inl e \<Rightarrow> Inl e
      | Inr st' \<Rightarrow>
          if hasUpperCase key then dom_setAttributeNS h el key (to_string value) st'
          else dom_setAttribute h el key (to_string value) st')"

text \<open>
  \<^verbatim>\<open>
  setStyle(element, value) {
    let style = "";
    if (typeof value === "string") { style = value; }
    else if (typeof value === "object") {
      for (let key in value) {
        const property = key.includes("-") ? key : this.camelToHyphen(key);
        style += `${property}:${value[key]};`;
      }
    }
    element.setAttribute("style", style);
  }
  \<close>
\<close>

definition style_text :: "dv \<Rightarrow> string" where
  "style_text value =
     (case value of
        DStr s \<Rightarrow> s
      | _ \<Rightarrow>
          if typeof_object value
          then concat (map (\<lambda>key. (if CHR ''-'' \<in> set key then key else camelToHyphen key)
                                   @ '':'' @ to_string (member value key) @ '';'')
                           (own_keys value))
          else [])"

definition setStyle :: "host \<Rightarrow> nid \<Rightarrow> dv \<Rightarrow> state \<Rightarrow> err + state" where
  "setStyle h el value st = dom_setAttribute h el ''style'' (style_text value) st"

text \<open>
  \<^verbatim>\<open>
  setTextContent(element, value) {
    element.textContent = "";
    element.appendChild(document.createTextNode(value));
  }
  \<close>
\<close>

definition setTextContent :: "nid \<Rightarrow> dv \<Rightarrow> state \<Rightarrow> err + state" where
  "setTextContent el value st =
     (case createTextNode (to_string value) st of (t, st') \<Rightarrow> set_childNodes el [t] st')"

text \<open>
  \<^verbatim>\<open>
  clearChildren(element) {
    // we need to check this.bindings for any reference to any of the children that are
    // being removed and remove their bindings
    const children = element.childNodes, bindings = this.bindings;
    Array.from(children).forEach((child) => {
      for (let key in bindings) {
        bindings[key] = bindings[key].filter((bind) => bind.element !== child);
      }
      element.removeChild(child);
    });
  }
  \<close>
\<close>

definition removeChild :: "nid \<Rightarrow> nid \<Rightarrow> state \<Rightarrow> state" where
  "removeChild el child st =
     (case elem_at st el of
        None \<Rightarrow> st
      | Some (ns, tag, as, ks) \<Rightarrow> put_node el (Elem ns tag as (remove1 child ks)) st)"

definition clearChild :: "nid \<Rightarrow> nid \<Rightarrow> state \<Rightarrow> state" where
  "clearChild el child st =
     removeChild el child
       (st\<lparr>bindings := map (\<lambda>(key, bs). (key, filter (\<lambda>bind. element bind \<noteq> child) bs))
                            (bindings st)\<rparr>)"

definition clearChildren :: "nid \<Rightarrow> state \<Rightarrow> state" where
  "clearChildren el st = fold (clearChild el) (childNodes st el) st"

text \<open>
  \<^verbatim>\<open>
  getNamespace(tagName) {
    const namespaces = { svg: ..., math: ..., xlink: ..., xml: ..., xmlns: ..., default: ... };
    return namespaces[tagName] || namespaces.default;      // part_001
    if (tagName in namespaces) { return namespaces[tagName]; }
    return namespaces.default;                            // html.js
  }
  \<close>
  Both \<open>tagName in namespaces\<close> and \<open>namespaces[tagName]\<close> also find the members that
  \<open>namespaces\<close> inherits; \<open>createElementNS\<close> is then given a built-in, and takes its text
  as the namespace.
\<close>

definition namespaces :: "(string \<times> string) list" where
  "namespaces =
     [(''svg'', ''http://www.w3.org/2000/svg''),
      (''math'', ''http://www.w3.org/1998/Math/MathML''),
      (''xlink'', ''http://www.w3.org/1999/xlink''),
      (''xml'', ''http://www.w3.org/XML/1998/namespace''),
      (''xmlns'', ''http://www.w3.org/2000/xmlns/''),
      (''default'', xhtml)]"

definition namespace_text :: "host \<Rightarrow> string \<Rightarrow> string" where
  "namespace_text h name =
     (case map_of namespaces name of
        Some ns \<Rightarrow> ns
      | None \<Rightarrow> if name = ''__proto__'' then ''[object Object]'' else nativeText h name)"

definition getNamespace1 :: "host \<Rightarrow> dv \<Rightarrow> string" where
  "getNamespace1 h tagName =
     (if to_string tagName \<in> set (map fst namespaces)
         \<or> to_string tagName \<in> set object_prototype
      then namespace_text h (to_string tagName)
      else xhtml)"

definition getNamespace2 :: "host \<Rightarrow> dv \<Rightarrow> string" where
  "getNamespace2 h tagName =
     (case map_of namespaces (to_string tagName) of
        Some ns \<Rightarrow> if ns \<noteq> [] then ns else xhtml
      | None \<Rightarrow>
          if to_string tagName \<in> set object_prototype
          then namespace_text h (to_string tagName) else xhtml)"

text \<open>
  \<^verbatim>\<open>
  parseStringifiedFunction(str) {
    if (isStringifiedFunction(str)) { return new Function(`return (${str})`)(); }
    throw new Error("Invalid stringified function");
  }
  \<close>
\<close>

definition parseStringifiedFunction :: "host \<Rightarrow> dv \<Rightarrow> err + dv" where
  "parseStringifiedFunction h str =
     (if isStringifiedFunction str then evalJS h (''return ('' @ to_string str @ '')'')
      else Inl InvalidStringifiedFunction)"

text \<open>
  The tether of an evaluator is the first of its declared parameters, cut out of its
  source text:
  \<^verbatim>\<open>
  const functStr = value.toString();
  const paramsStr = functStr.slice(functStr.indexOf("(") + 1, functStr.indexOf(")"));
  const paramsArray = paramsStr.split(",").map((param) => param.trim());
  const listenerId = paramsArray.length > 0 ? paramsArray[0] : null;
  \<close>
  A property key that is \<open>null\<close> is the string \<open>"null"\<close>.
\<close>

definition listenerId_of :: "string \<Rightarrow> string option" where
  "listenerId_of functStr =
     (case map trim (split_on (CHR '','')
             (slice functStr (indexOf (CHR ''('') functStr + 1) (indexOf (CHR '')'') functStr))) of
        [] \<Rightarrow> None
      | p # ps \<Rightarrow> Some p)"

definition listener_key :: "string option \<Rightarrow> string" where
  "listener_key listenerId = (case listenerId of None \<Rightarrow> ''null'' | Some s \<Rightarrow> s)"

text \<open>
  The first half of the treatment of a function value (inline in \<open>render\<close> of html.js,
  \<open>processFunctionValue\<close> in part_001): register the binding in the browser, or write
  the hydration attributes on the server; then evaluate once.
  \<^verbatim>\<open>
  if (!isServer) {
    if (!this.bindings[listenerId]) { this.bindings[listenerId] = []; }
    this.bindings[listenerId].push({ element, func: value, property: key });
  } else {
    element.dataset.listenerId = listenerId;
    const isCamelCase = (str) => /[a-z][A-Z]/.test(str);
    element.setAttribute(
      `data-bind-to-${isCamelCase(key) ? this.camelToHyphen(key) : key}`, value);
  }
  const result = value(this.data[listenerId], e, c);
  \<close>
\<close>

text \<open>
  \<open>this.bindings[listenerId]\<close>: the array registered under the key, or else the member
  that the object \<open>this.bindings\<close> inherits under that name, or else \<open>undefined\<close>. An
  inherited member is truthy and has neither \<open>push\<close> nor \<open>forEach\<close>.
\<close>

datatype found = Absent | Own "binding list" | Inherited

definition bindings_at :: "state \<Rightarrow> string \<Rightarrow> found" where
  "bindings_at st key =
     (case map_of (bindings st) key of
        Some bs \<Rightarrow> Own bs
      | None \<Rightarrow> if key \<in> set object_prototype then Inherited else Absent)"

definition pushBinding :: "string \<Rightarrow> binding \<Rightarrow> state \<Rightarrow> err + state" where
  "pushBinding key b st =
     (case bindings_at st key of
        Absent \<Rightarrow> Inr (st\<lparr>bindings := AList.update key [b] (bindings st)\<rparr>)
      | Own bs \<Rightarrow> Inr (st\<lparr>bindings := AList.update key (bs @ [b]) (bindings st)\<rparr>)
      | Inherited \<Rightarrow> Inl TypeError)"

text \<open>
  \<open>element.dataset.listenerId = listenerId\<close> writes the attribute \<open>data-listener-id\<close>;
  on an element without a \<open>dataset\<close> it is a TypeError.
\<close>

definition dataset_listenerId :: "host \<Rightarrow> nid \<Rightarrow> string \<Rightarrow> state \<Rightarrow> err + state" where
  "dataset_listenerId h el v st =
     (case elem_at st el of
        None \<Rightarrow> Inl TypeError
      | Some (ns, tag, as, ks) \<Rightarrow>
          if hasDataset h ns
          then Inr (put_node el (Elem ns tag (AList.update ''data-listener-id'' v as) ks) st)
          else Inl TypeError)"

definition declareBinding :: "host \<Rightarrow> nid \<Rightarrow> string \<Rightarrow> string \<Rightarrow> (sv \<Rightarrow> err + dv) \<Rightarrow> state \<Rightarrow> err + state" where
  "declareBinding h el key src f st =
     (let lk = listener_key (listenerId_of src) in
      if \<not> isServer h
      then pushBinding lk \<lparr>element = el, func = DFun src f, property = key\<rparr> st
      else (case dataset_listenerId h el lk st of
              Inl e \<Rightarrow> Inl e
            | Inr st' \<Rightarrow>
                dom_setAttribute h el
                  (''data-bind-to-'' @ (if isCamelCase key then camelToHyphen key else key))
                  src st'))"

definition evaluate :: "string \<Rightarrow> nid \<Rightarrow> string \<Rightarrow> (sv \<Rightarrow> err + dv) \<Rightarrow> state \<Rightarrow> err + (dv \<times> state)" where
  "evaluate lk el key f st =
     (case proxy_get (store st) lk of
        Inl e \<Rightarrow> Inl e
      | Inr input \<Rightarrow>
          (case f input of
             Inl e \<Rightarrow> Inl e
           | Inr result \<Rightarrow> Inr (result, st\<lparr>evlog := evlog st @ [Initial lk el key]\<rparr>)))"

text \<open>
  Root completion on the server (inline at the end of \<open>render\<close> in html.js,
  \<open>handleServerSideRendering\<close> in part_001):
  \<^verbatim>\<open>
  if (element.tagName === "HTML") {
    const script = document.createElement("script");
    script.textContent = `... App.init(); ...`;
    if (Object.keys(this.data).length > 0) { script.textContent += `... JSON.parse(...) ...`; }
    script.setAttribute("type", "module");
    script.setAttribute("defer", true);
    const body = element.querySelector("body");
    const scripts = body.querySelectorAll("script");
    if (scripts.length > 0) { body.insertBefore(script, scripts[0]); }
    else { body.appendChild(script); }
  }
  return `<!DOCTYPE html>${element.outerHTML}`;
  \<close>
  The returned text is determined by the subtree of the element: \<open>RDoc element\<close>.
  The two files do the same with script texts that differ in their layout (indentation,
  line breaks and comments); the texts follow, each as the template literal of its file
  has it.
\<close>

definition bootstrap_import1 :: "string \<Rightarrow> string" where
  "bootstrap_import1 cdn = join [CHR 0x0A]
     ['''',
      ''          const App = (await import(\"'' @ cdn @ ''/dist/premmio/htmljs/html.js\")).default;'',
      ''          App.init();'',
      ''          window.App = App;'',
      ''        '']"

definition bootstrap_scan1 :: "(string \<times> sv) list \<Rightarrow> piece list" where
  "bootstrap_scan1 d =
     [Lit (join [CHR 0x0A] ['''', ''            const parsedData = JSON.parse('' @ [CHR 0x27]]),
      Json d,
      Lit (CHR 0x27 # join [CHR 0x0A]
        ['');'',
         ''            Object.keys(parsedData).forEach(key => {'',
         ''              App.data[key] = parsedData[key];'',
         ''            });'',
         '''',
         ''            // we need to find all elements on screen with a data-listener-id attribute'',
         ''            // and then set up the listeners for them'',
         ''            const elements = document.querySelectorAll(\"[data-listener-id]\");'',
         '''',
         ''            elements.forEach((element) => {'',
         ''              const listenerId = element.getAttribute(\"data-listener-id\");'',
         '''',
         ''              // create the bindings array if it doesn't exist'',
         ''              if (!App.bindings[listenerId]) {'',
         ''                App.bindings[listenerId] = [];'',
         ''              }'',
         '''',
         ''              const hyphenToCamelCase = (str) => {'',
         ''                return str.replace(/-([a-z])/g, (g) => g[1].toUpperCase());'',
         ''              };'',
         ''              '',
         ''              Array.from(element.attributes).forEach((attr) => {'',
         ''                if (attr.name.startsWith(\"data-bind-to-\")) {'',
         ''                  // Remove the \"data-bind-to-\" prefix to get the property name'',
         ''                  let property = attr.name.slice(\"data-bind-to-\".length);'',
         ''              '',
         ''                  // If the property name does not contain \"data-\", convert it to camelCase'',
         ''                  if (!property.startsWith(\"data-\")) {'',
         ''                    property = hyphenToCamelCase(property);'',
         ''                  }'',
         ''              '',
         ''                  try {'',
         ''                    const func = new Function(\"return \" + attr.value)();'',
         ''                    if (typeof func === \"function\") {'',
         ''                      App.bindings[listenerId].push({'',
         ''                        element,'',
         ''                        property,'',
         ''                        func,'',
         ''                      });'',
         ''                    }'',
         ''                  } catch (e) {'',
         ''                    // Ignore attributes that are not functions'',
         ''                  }'',
         ''                }'',
         ''              });'',
         ''            });'',
         ''          ''])]"

definition bootstrap_import2 :: "string \<Rightarrow> string" where
  "bootstrap_import2 cdn = join [CHR 0x0A]
     ['''',
      ''        const App = (await import(\"'' @ cdn @ ''/dist/premmio/htmljs/html.js\")).default;'',
      ''        App.init();'',
      ''        window.App = App;'',
      ''      '']"

definition bootstrap_scan2 :: "(string \<times> sv) list \<Rightarrow> piece list" where
  "bootstrap_scan2 d =
     [Lit (join [CHR 0x0A] ['''', ''          const parsedData = JSON.parse('' @ [CHR 0x27]]),
      Json d,
      Lit (CHR 0x27 # join [CHR 0x0A]
        ['');'',
         ''          Object.keys(parsedData).forEach(key => {'',
         ''            App.data[key] = parsedData[key];'',
         ''          });'',
         ''  '',
         ''          const elements = document.querySelectorAll(\"[data-listener-id]\");'',
         ''          elements.forEach((element) => {'',
         ''            const listenerId = element.getAttribute(\"data-listener-id\");'',
         ''            if (!App.bindings[listenerId]) {'',
         ''              App.bindings[listenerId] = [];'',
         ''            }'',
         ''            const hyphenToCamelCase = (str) => str.replace(/-([a-z])/g, (g) => g[1].toUpperCase());'',
         ''            Array.from(element.attributes).forEach((attr) => {'',
         ''              if (attr.name.startsWith(\"data-bind-to-\")) {'',
         ''                let property = attr.name.slice(\"data-bind-to-\".length);'',
         ''                if (!property.startsWith(\"data-\")) {'',
         ''                  property = hyphenToCamelCase(property);'',
         ''                }'',
         ''                try {'',
         ''                  const func = new Function(\"return \" + attr.value)();'',
         ''                  if (typeof func === \"function\") {'',
         ''                    App.bindings[listenerId].push({ element, property, func });'',
         ''                  }'',
         ''                } catch (e) {'',
         ''                  // Ignore attributes that are not functions'',
         ''                }'',
         ''              }'',
         ''            });'',
         ''          });'',
         ''        ''])]"

text \<open>
  \<open>JSON.stringify(this.data)\<close> reads each key of the proxy target through the \<open>get\<close>
  trap, which splits it at its dots.
\<close>

fun snapshot_keys :: "store \<Rightarrow> string list \<Rightarrow> err + (string \<times> sv) list" where
  "snapshot_keys target [] = Inr []"
| "snapshot_keys target (k # ks) =
     (case proxy_get target k of
        Inl e \<Rightarrow> Inl e
      | Inr v \<Rightarrow>
          (case snapshot_keys target ks of
             Inl e \<Rightarrow> Inl e
           | Inr d \<Rightarrow> Inr ((k, v) # d)))"

definition snapshot :: "store \<Rightarrow> err + (string \<times> sv) list" where
  "snapshot target = snapshot_keys target (map fst target)"

text \<open>
  The texts that are assigned to \<open>script.textContent\<close>, one after the other: the import,
  and when the store has a key, the import followed by the scan.
\<close>

definition script_texts ::
  "string \<Rightarrow> ((string \<times> sv) list \<Rightarrow> piece list) \<Rightarrow> store \<Rightarrow> err + piece list list" where
  "script_texts import scan target =
     (if target = [] then Inr [[Lit import]]
      else (case snapshot target of
              Inl e \<Rightarrow> Inl e
            | Inr d \<Rightarrow> Inr [[Lit import], Lit import # scan d]))"

definition script_texts1 :: "host \<Rightarrow> store \<Rightarrow> err + piece list list" where
  "script_texts1 h target = script_texts (bootstrap_import1 (cdnBaseUrl h)) bootstrap_scan1 target"

definition script_texts2 :: "host \<Rightarrow> store \<Rightarrow> err + piece list list" where
  "script_texts2 h target = script_texts (bootstrap_import2 (cdnBaseUrl h)) bootstrap_scan2 target"

text \<open>
  \<open>descendants\<close> lists the nodes below a list of nodes in document order; the depth of a
  tree is at most the number of nodes of the heap, which is the fuel it is given. The
  selectors \<open>body\<close> and \<open>script\<close> select by local name, the part of a tag name after its
  colon if it has one.
\<close>

definition kids :: "node list \<Rightarrow> nid \<Rightarrow> nid list" where
  "kids ns i = (if i < length ns then (case ns ! i of Elem n t as ks \<Rightarrow> ks | _ \<Rightarrow> []) else [])"

fun descendants :: "node list \<Rightarrow> nat \<Rightarrow> nid list \<Rightarrow> nid list" where
  "descendants ns fuel [] = []"
| "descendants ns 0 (i # is) = i # descendants ns 0 is"
| "descendants ns (Suc n) (i # is) = i # descendants ns n (kids ns i) @ descendants ns (Suc n) is"

definition local_name :: "string \<Rightarrow> string" where
  "local_name tag = (if CHR '':'' \<in> set tag then tl (dropWhile (\<lambda>c. c \<noteq> CHR '':'') tag) else tag)"

definition has_tag :: "state \<Rightarrow> string \<Rightarrow> nid \<Rightarrow> bool" where
  "has_tag st name i =
     (case elem_at st i of Some (ns, tag, as, ks) \<Rightarrow> local_name tag = name | None \<Rightarrow> False)"

definition querySelectorAll :: "state \<Rightarrow> nid \<Rightarrow> string \<Rightarrow> nid list" where
  "querySelectorAll st el name =
     filter (has_tag st name) (descendants (nodes st) (length (nodes st)) (childNodes st el))"

definition insertBefore :: "nid \<Rightarrow> nid \<Rightarrow> nid \<Rightarrow> state \<Rightarrow> err + state" where
  "insertBefore el new ref st =
     (if ref \<in> set (childNodes st el)
      then set_childNodes el
             (takeWhile (\<lambda>k. k \<noteq> ref) (childNodes st el) @ new # dropWhile (\<lambda>k. k \<noteq> ref) (childNodes st el))
             st
      else Inl DOMException)"

text \<open>
  The script element, with the attributes it ends with; each assignment to its
  \<open>textContent\<close> replaces its children by one new text node.
\<close>

definition script_element :: "nid list \<Rightarrow> node" where
  "script_element ks = Elem xhtml ''script'' [(''type'', ''module''), (''defer'', ''true'')] ks"

fun set_script_texts :: "nid \<Rightarrow> piece list list \<Rightarrow> state \<Rightarrow> state" where
  "set_script_texts script [] st = st"
| "set_script_texts script (ps # rest) st =
     (case new_node (Bootstrap ps) st of
        (t, st') \<Rightarrow> set_script_texts script rest (put_node script (script_element [t]) st'))"

definition insert_bootstrap :: "piece list list \<Rightarrow> nid \<Rightarrow> state \<Rightarrow> err + state" where
  "insert_bootstrap texts el st =
     (case new_node (script_element []) st of
        (script, st1) \<Rightarrow>
          (let st2 = set_script_texts script texts st1 in
           (case querySelectorAll st2 el ''body'' of
              [] \<Rightarrow> Inl TypeError
            | body # bs \<Rightarrow>
                (case querySelectorAll st2 body ''script'' of
                   [] \<Rightarrow> dom_appendChild body script st2
                 | s0 # ss \<Rightarrow> insertBefore body script s0 st2))))"

definition is_document_element :: "state \<Rightarrow> nid \<Rightarrow> bool option" where
  "is_document_element st el =
     (case elem_at st el of
        None \<Rightarrow> None
      | Some (ns, tag, as, ks) \<Rightarrow> Some ((if ns = xhtml then map to_upper tag else tag) = ''HTML''))"

definition server_root ::
  "(store \<Rightarrow> err + piece list list) \<Rightarrow> nid \<Rightarrow> state \<Rightarrow> err + (rres \<times> state)" where
  "server_root texts el st =
     (case is_document_element st el of
        None \<Rightarrow> Inl TypeError
      | Some False \<Rightarrow> Inr (RDoc el, st)
      | Some True \<Rightarrow>
          (case texts (store st) of
             Inl e \<Rightarrow> Inl e
           | Inr ts \<Rightarrow>
               (case insert_bootstrap ts el st of
                  Inl e \<Rightarrow> Inl e
                | Inr st' \<Rightarrow> Inr (RDoc el, st'))))"

text \<open>The inline code of html.js, and the method of part_001.\<close>

definition handleServerSideRendering1 :: "host \<Rightarrow> nid \<Rightarrow> state \<Rightarrow> err + (rres \<times> state)" where
  "handleServerSideRendering1 h el st = server_root (script_texts1 h) el st"

definition handleServerSideRendering :: "host \<Rightarrow> nid \<Rightarrow> state \<Rightarrow> err + (rres \<times> state)" where
  "handleServerSideRendering h el st = server_root (script_texts2 h) el st"

section \<open>The renderer of src/html.js\<close>

text \<open>
  \<open>render(template, callback, depth = 0)\<close> and \<open>setElementAttribute(element, key, value,
  listenerId, depth)\<close> call each other through the children of a descriptor, and an
  evaluator may return descriptors of any size: the recursion is bounded by fuel, spent
  by \<open>render\<close> when it creates an element. An exception ends the call; the state it
  leaves behind is not described.

  Two names are free in \<open>render\<close> of html.js, \<open>data\<close> and \<open>listener\<close>: the module declares
  neither, and the global object is taken to have no property of these names. Evaluating
  \<open>data\<close> is then a ReferenceError: in \<open>callback(element, data)\<close> when a callback is given
  (the arguments are evaluated before the call is attempted), in the call
  \<open>this.render(value, data, ...)\<close> for \<open>prepend\<close> and \<open>append\<close>, and in \<open>if (!data &&
  !callback)\<close> at depth \<open>0\<close> in the browser. \<open>setElementAttribute\<close> calls
  \<open>this.render(child, listener, null, listenerId, depth + 1)\<close>: the callback of a nested
  render is the store slice \<open>listener\<close>, and its depth is \<open>null\<close>. The callback is
  therefore a store value here; a function given as callback counts as any truthy one.

  The items \<open>children[i]\<close> for \<open>i < children.length\<close>: the elements of an array, the
  characters of a string, the indexed members of an object up to its \<open>length\<close>;
  \<open>undefined.length\<close> is a TypeError. A number and a boolean have no \<open>length\<close>; the
  \<open>length\<close> of a function is the number of its parameters and it has no indexed member,
  so that each of its items is \<open>undefined\<close>, which renders to nothing, as no item does.

  The comparison \<open>i < children.length\<close> converts the length to a number. \<open>loop_bound\<close> is
  the number of indices \<open>i = 0, 1, ...\<close> below it: none for \<open>NaN\<close>. A string is a number
  when, white space apart, it is empty (zero) or a numeral; the numerals made of decimal
  digits and a sign are evaluated, and \<open>Infinity\<close>, under which the loop does not end; a
  string that may be a numeral with a fraction or an exponent, or one in another base,
  is not. An array is converted through the string that joins its elements, an object
  through its \<open>valueOf\<close> and \<open>toString\<close>: the inherited ones give \<open>"[object Object]"\<close>,
  and an own member that is not callable is passed over.
\<close>

definition other_numeral :: "string \<Rightarrow> bool" where
  "other_numeral t =
     ((list_ex is_digit t \<and> list_all (\<lambda>c. is_digit c \<or> c \<in> set ''.eE+-'') t)
      \<or> (starts_with ''0'' t \<and> length t > 1 \<and> t ! 1 \<in> set ''xXoObB''))"

definition loop_bound_string :: "string \<Rightarrow> err + nat" where
  "loop_bound_string s =
     (let t = trim s;
          digits = (if starts_with ''+'' t \<or> starts_with ''-'' t then tl t else t)
      in if t = [] then Inr 0
         else if digits \<noteq> [] \<and> list_all is_digit digits
         then Inr (if starts_with ''-'' t then 0 else nat_of_digits digits)
         else if t = ''Infinity'' \<or> t = ''+Infinity'' then Inl OutOfFuel
         else if other_numeral t then Inl Unmodelled
         else Inr 0)"

fun loop_bound :: "dv \<Rightarrow> err + nat" where
  "loop_bound DUndef = Inr 0"
| "loop_bound DNull = Inr 0"
| "loop_bound (DBool b) = Inr (if b then 1 else 0)"
| "loop_bound (DNum n) = Inr (nat n)"
| "loop_bound (DStr s) = loop_bound_string s"
| "loop_bound (DArr xs) = loop_bound_string (to_string (DArr xs))"
| "loop_bound (DFun src f) = loop_bound_string src"
| "loop_bound (DObj kvs) =
     (if is_function (member (DObj kvs) ''valueOf'') \<or> is_function (member (DObj kvs) ''toString'')
      then Inl Unmodelled
      else if ''toString'' \<in> set (map fst kvs) then Inl TypeError
      else Inr 0)"

fun array_like :: "dv \<Rightarrow> err + dv list" where
  "array_like DUndef = Inl TypeError"
| "array_like DNull = Inl TypeError"
| "array_like (DArr xs) = Inr xs"
| "array_like (DStr s) = Inr (map (\<lambda>c. DStr [c]) s)"
| "array_like (DObj kvs) =
     (case loop_bound (member (DObj kvs) ''length'') of
        Inl e \<Rightarrow> Inl e
      | Inr n \<Rightarrow> Inr (map (\<lambda>i. member (DObj kvs) (string_of_nat i)) [0..<n]))"
| "array_like (DBool b) = Inr []"
| "array_like (DNum n) = Inr []"
| "array_like (DFun src f) = Inr []"

definition setInnerHTML1 :: "host \<Rightarrow> nid \<Rightarrow> dv \<Rightarrow> state \<Rightarrow> err + state" where
  "setInnerHTML1 h el value st = dom_set_innerHTML h el (to_string value) st"

definition insertText :: "bool \<Rightarrow> nid \<Rightarrow> dv \<Rightarrow> state \<Rightarrow> err + state" where
  "insertText front el value st =
     (case createTextNode (to_string value) st of
        (t, st') \<Rightarrow> if front then dom_prepend el t st' else dom_appendChild el t st')"

text \<open>
  One step of the attribute pass, up to the call of \<open>setElementAttribute\<close>: the value to
  apply and the tether it is applied under, or nothing to apply when the value is \<open>null\<close>.
  \<^verbatim>\<open>
  let value = template[key];
  if (isStringifiedFunction(value)) { value = parseStringifiedFunction(value); }
  if (typeof value === "function") {
    ... (declareBinding, evaluate) ...
    if (value !== null) { this.setElementAttribute(element, key, value, listenerId, depth); }
  } else {
    if (value !== null) { this.setElementAttribute(element, key, value, null, depth); }
  }
  \<close>
\<close>

fun attribute_value :: "host \<Rightarrow> nid \<Rightarrow> string \<Rightarrow> dv \<Rightarrow> state \<Rightarrow> err + ((dv \<times> string option) option \<times> state)" where
  "attribute_value h el key (DFun src f) st =
     (case declareBinding h el key src f st of
        Inl e \<Rightarrow> Inl e
      | Inr st1 \<Rightarrow>
          (case evaluate (listener_key (listenerId_of src)) el key f st1 of
             Inl e \<Rightarrow> Inl e
           | Inr (result, st2) \<Rightarrow>
               Inr (if is_null result then None else Some (result, listenerId_of src), st2)))"
| "attribute_value h el key DNull st = Inr (None, st)"
| "attribute_value h el key value st = Inr (Some (value, None), st)"

definition template_value :: "host \<Rightarrow> dv \<Rightarrow> string \<Rightarrow> err + dv" where
  "template_value h template key =
     (if isStringifiedFunction (member template key)
      then parseStringifiedFunction h (member template key)
      else Inr (member template key))"

definition attribute_step :: "host \<Rightarrow> dv \<Rightarrow> nid \<Rightarrow> string \<Rightarrow> state \<Rightarrow> err + ((dv \<times> string option) option \<times> state)" where
  "attribute_step h template el key st =
     (case template_value h template key of
        Inl e \<Rightarrow> Inl e
      | Inr value \<Rightarrow> attribute_value h el key value st)"

text \<open>The end of \<open>render\<close> in html.js, after the attribute pass.\<close>

definition finish1 :: "host \<Rightarrow> nid \<Rightarrow> sv \<Rightarrow> depth \<Rightarrow> state \<Rightarrow> err + (rres \<times> state)" where
  "finish1 h el callback depth st =
     (if truthy_sv callback then Inl ReferenceError
      else if isServer h \<and> depth = DepthNum 0 then handleServerSideRendering1 h el st
      else if depth = DepthNum 0 then Inl ReferenceError
      else Inr (RNode el, st))"

text \<open>The tests of \<open>render\<close> before an element is created.\<close>

definition pruned1 :: "dv \<Rightarrow> bool" where
  "pruned1 template =
     (is_null template \<or> is_undefined template
      \<or> (''if'' \<in> set (own_keys template) \<and> \<not> truthy (member template ''if'')))"

fun is_string :: "dv \<Rightarrow> bool" where
  "is_string (DStr s) = True"
| "is_string _ = False"

definition tagName1 :: "dv \<Rightarrow> dv" where
  "tagName1 template =
     (if is_undefined (member template ''tagName'') then DStr ''div''
      else member template ''tagName'')"

text \<open>
  \<open>if (childElement !== null) { element.appendChild(childElement); }\<close>, where appending
  a string (the document text of a root render) is a TypeError.
\<close>

fun attach :: "nid \<Rightarrow> rres \<Rightarrow> state \<Rightarrow> err + state" where
  "attach el RNull st = Inr st"
| "attach el (RNode c) st = dom_appendChild el c st"
| "attach el (RDoc c) st = Inl TypeError"

text \<open>
  \<^verbatim>\<open>
  let children = key === "children" ? value : [value];
  if (element.children.length > 0 || value === null) {
    this.clearChildren(element);
    if (value === null) { return; }
  }
  \<close>
  gives the items still to render (none after the early return) and the state.
\<close>

definition children_items :: "string \<Rightarrow> dv \<Rightarrow> err + dv list" where
  "children_items key value =
     (if is_null value then Inr []
      else if key = ''children'' then array_like value
      else Inr [value])"

definition children_clear :: "nid \<Rightarrow> dv \<Rightarrow> state \<Rightarrow> err + state" where
  "children_clear el value st =
     (if elem_at st el = None then Inl TypeError
      else if has_element_children st el \<or> is_null value then Inr (clearChildren el st)
      else Inr st)"

function render1 :: "host \<Rightarrow> nat \<Rightarrow> dv \<Rightarrow> sv \<Rightarrow> depth \<Rightarrow> state \<Rightarrow> err + (rres \<times> state)"
and attrs1 :: "host \<Rightarrow> nat \<Rightarrow> dv \<Rightarrow> nid \<Rightarrow> depth \<Rightarrow> string list \<Rightarrow> state \<Rightarrow> err + state"
and setElementAttribute1 ::
  "host \<Rightarrow> nat \<Rightarrow> nid \<Rightarrow> string \<Rightarrow> dv \<Rightarrow> string option \<Rightarrow> depth \<Rightarrow> state \<Rightarrow> err + state"
and children1 :: "host \<Rightarrow> nat \<Rightarrow> nid \<Rightarrow> dv list \<Rightarrow> sv \<Rightarrow> state \<Rightarrow> err + state"
where
  "render1 h fuel template callback depth st =
     (if pruned1 template then Inr (RNull, st)
      else if is_string template
      then Inr (map_prod RNode id (createTextNode (to_string template) st))
      else if fuel = 0 then Inl OutOfFuel
      else (case createElementNS h (getNamespace1 h (tagName1 template)) (tagName1 template) st of
              Inl e \<Rightarrow> Inl e
            | Inr (el, st1) \<Rightarrow>
                (case attrs1 h (fuel - 1) template el depth (own_keys template) st1 of
                   Inl e \<Rightarrow> Inl e
                 | Inr st2 \<Rightarrow> finish1 h el callback depth st2)))"
| "attrs1 h n template el depth [] st = Inr st"
| "attrs1 h n template el depth (key # keys) st =
     (case attribute_step h template el key st of
        Inl e \<Rightarrow> Inl e
      | Inr (None, st1) \<Rightarrow> attrs1 h n template el depth keys st1
      | Inr (Some (value, listenerId), st1) \<Rightarrow>
          (case setElementAttribute1 h n el key value listenerId depth st1 of
             Inl e \<Rightarrow> Inl e
           | Inr st2 \<Rightarrow> attrs1 h n template el depth keys st2))"
| "setElementAttribute1 h n el key value listenerId depth st =
     (case proxy_get (store st) (listener_key listenerId) of
        Inl e \<Rightarrow> Inl e
      | Inr listener \<Rightarrow>
          if key \<notin> set nonAttributes then setAttribute h el key value st
          else if key = ''style'' then setStyle h el value st
          else if key = ''innerHTML'' then setInnerHTML1 h el value st
          else if key = ''prepend''
          then (if \<not> typeof_object value then insertText True el value st else Inl ReferenceError)
          else if key = ''children'' \<or> key = ''child''
          then (case children_clear el value st of
                  Inl e \<Rightarrow> Inl e
                | Inr st1 \<Rightarrow>
                    (case children_items key value of
                       Inl e \<Rightarrow> Inl e
                     | Inr items \<Rightarrow> children1 h n el items listener st1))
          else if key = ''textContent'' then setTextContent el value st
          else if key = ''append''
          then (if \<not> typeof_object value then insertText False el value st else Inl ReferenceError)
          else Inr st)"
| "children1 h n el [] listener st = Inr st"
| "children1 h n el (child # rest) listener st =
     (case render1 h n child listener DepthNull st of
        Inl e \<Rightarrow> Inl e
      | Inr (r, st1) \<Rightarrow>
          (case attach el r st1 of
             Inl e \<Rightarrow> Inl e
           | Inr st2 \<Rightarrow> children1 h n el rest listener st2))"

  by pat_completeness auto
termination
  by (relation "measures
        [\<lambda>x. case x of
               Inl (Inl (h, fuel, t, cb, d, st)) \<Rightarrow> fuel
             | Inl (Inr (h, n, t, el, d, keys, st)) \<Rightarrow> n
             | Inr (Inl (h, n, el, key, v, l, d, st)) \<Rightarrow> n
             | Inr (Inr (h, n, el, items, l, st)) \<Rightarrow> n,
         \<lambda>x. case x of
               Inl (Inl a) \<Rightarrow> 0
             | Inl (Inr a) \<Rightarrow> 3
             | Inr (Inl a) \<Rightarrow> 2
             | Inr (Inr a) \<Rightarrow> Suc 0,
         \<lambda>x. case x of
               Inl (Inl a) \<Rightarrow> 0
             | Inl (Inr (h, n, t, el, d, keys, st)) \<Rightarrow> length keys
             | Inr (Inl a) \<Rightarrow> 0
             | Inr (Inr (h, n, el, items, l, st)) \<Rightarrow> length items]") auto

section \<open>The renderer of src/unnamed/part_001\<close>

text \<open>
  \<open>render(template, callbackOrQuery, depth = 0)\<close>; nested renders pass \<open>null\<close> for
  \<open>callbackOrQuery\<close>, and a root render is taken without one. \<open>setElementAttribute\<close>
  dispatches to methods, three of them with one argument more than they declare:
  \<^verbatim>\<open>
  this.prependChild(element, value, listenerId, depth);   // prependChild(element, value, depth)
  this.setChildren(element, key, value, listener, listenerId, depth);
                                                          // setChildren(element, key, value, depth)
  this.appendChild(element, value, listenerId, depth);    // appendChild(element, value, depth)
  \<close>
  so the \<open>depth\<close> of \<open>prependChild\<close> and \<open>appendChild\<close> is the tether and that of
  \<open>setChildren\<close> is the store slice; each renders its items at \<open>depth + 1\<close>. These three
  methods are unfolded in \<open>setElementAttribute2\<close>. \<open>children.forEach\<close> exists on an array
  only.
\<close>

definition pruned2 :: "dv \<Rightarrow> bool" where
  "pruned2 template =
     (\<not> truthy template
      \<or> (case member template ''if'' of DBool b \<Rightarrow> \<not> b | _ \<Rightarrow> False))"

definition tagName2 :: "dv \<Rightarrow> dv" where
  "tagName2 template =
     (if truthy (member template ''tagName'') then member template ''tagName'' else DStr ''div'')"

definition finish2 :: "host \<Rightarrow> nid \<Rightarrow> depth \<Rightarrow> state \<Rightarrow> err + (rres \<times> state)" where
  "finish2 h el depth st =
     (if isServer h \<and> depth = DepthNum 0 then handleServerSideRendering h el st
      else Inr (RNode el, st))"

text \<open>
  \<^verbatim>\<open>
  setInnerHTML(element, value) { element.innerHTML = ""; element.innerHTML = value; }
  \<close>
  Assigning \<open>null\<close> to \<open>innerHTML\<close> assigns the empty string.
\<close>

definition setInnerHTML2 :: "host \<Rightarrow> nid \<Rightarrow> dv \<Rightarrow> state \<Rightarrow> err + state" where
  "setInnerHTML2 h el value st =
     dom_set_innerHTML h el (if is_null value then [] else to_string value) st"

fun forEach_items :: "dv \<Rightarrow> err + dv list" where
  "forEach_items (DArr xs) = Inr xs"
| "forEach_items _ = Inl TypeError"

definition children_items2 :: "string \<Rightarrow> dv \<Rightarrow> err + dv list" where
  "children_items2 key value =
     (if is_null value then Inr []
      else if key = ''children'' then forEach_items value
      else Inr [value])"

text \<open>\<open>if (childElement !== null) { element.prepend(childElement); }\<close>\<close>

fun attach_front :: "nid \<Rightarrow> rres \<Rightarrow> state \<Rightarrow> err + state" where
  "attach_front el RNull st = Inr st"
| "attach_front el (RNode c) st = dom_prepend el c st"
| "attach_front el (RDoc c) st = Inl TypeError"

function render2 :: "host \<Rightarrow> nat \<Rightarrow> dv \<Rightarrow> depth \<Rightarrow> state \<Rightarrow> err + (rres \<times> state)"
and attrs2 :: "host \<Rightarrow> nat \<Rightarrow> dv \<Rightarrow> nid \<Rightarrow> depth \<Rightarrow> string list \<Rightarrow> state \<Rightarrow> err + state"
and setElementAttribute2 ::
  "host \<Rightarrow> nat \<Rightarrow> nid \<Rightarrow> string \<Rightarrow> dv \<Rightarrow> string option \<Rightarrow> depth \<Rightarrow> state \<Rightarrow> err + state"
and children2 :: "host \<Rightarrow> nat \<Rightarrow> nid \<Rightarrow> dv list \<Rightarrow> depth \<Rightarrow> state \<Rightarrow> err + state"
where
  "render2 h fuel template depth st =
     (if pruned2 template then Inr (RNull, st)
      else if is_string template
      then Inr (map_prod RNode id (createTextNode (to_string template) st))
      else if fuel = 0 then Inl OutOfFuel
      else (case createElementNS h (getNamespace2 h (tagName2 template)) (tagName2 template) st of
              Inl e \<Rightarrow> Inl e
            | Inr (el, st1) \<Rightarrow>
                (case attrs2 h (fuel - 1) template el depth (own_keys template) st1 of
                   Inl e \<Rightarrow> Inl e
                 | Inr st2 \<Rightarrow> finish2 h el depth st2)))"
| "attrs2 h n template el depth [] st = Inr st"
| "attrs2 h n template el depth (key # keys) st =
     (case attribute_step h template el key st of
        Inl e \<Rightarrow> Inl e
      | Inr (None, st1) \<Rightarrow> attrs2 h n template el depth keys st1
      | Inr (Some (value, listenerId), st1) \<Rightarrow>
          (case setElementAttribute2 h n el key value listenerId depth st1 of
             Inl e \<Rightarrow> Inl e
           | Inr st2 \<Rightarrow> attrs2 h n template el depth keys st2))"
| "setElementAttribute2 h n el key value listenerId depth st =
     (case proxy_get (store st) (listener_key listenerId) of
        Inl e \<Rightarrow> Inl e
      | Inr listener \<Rightarrow>
          if key \<notin> set nonAttributes then setAttribute h el key value st
          else if key = ''style'' then setStyle h el value st
          else if key = ''innerHTML'' then setInnerHTML2 h el value st
          else if key = ''prepend''
          then (if \<not> typeof_object value then insertText True el value st
                else (case render2 h n value (plus_one_id listenerId) st of
                        Inl e \<Rightarrow> Inl e
                      | Inr (r, st1) \<Rightarrow> attach_front el r st1))
          else if key = ''children'' \<or> key = ''child''
          then (case children_clear el value st of
                  Inl e \<Rightarrow> Inl e
                | Inr st1 \<Rightarrow>
                    (case children_items2 key value of
                       Inl e \<Rightarrow> Inl e
                     | Inr items \<Rightarrow> children2 h n el items (plus_one_sv listener) st1))
          else if key = ''textContent'' then setTextContent el value st
          else if key = ''append''
          then (if \<not> typeof_object value then insertText False el value st
                else (case render2 h n value (plus_one_id listenerId) st of
                        Inl e \<Rightarrow> Inl e
                      | Inr (r, st1) \<Rightarrow> attach el r st1))
          else Inr st)"
| "children2 h n el [] depth st = Inr st"
| "children2 h n el (child # rest) depth st =
     (case render2 h n child depth st of
        Inl e \<Rightarrow> Inl e
      | Inr (r, st1) \<Rightarrow>
          (case attach el r st1 of
             Inl e \<Rightarrow> Inl e
           | Inr st2 \<Rightarrow> children2 h n el rest depth st2))"
  by pat_completeness auto
termination
  by (relation "measures
        [\<lambda>x. case x of
               Inl (Inl (h, fuel, t, d, st)) \<Rightarrow> fuel
             | Inl (Inr (h, n, t, el, d, keys, st)) \<Rightarrow> n
             | Inr (Inl (h, n, el, key, v, l, d, st)) \<Rightarrow> n
             | Inr (Inr (h, n, el, items, d, st)) \<Rightarrow> n,
         \<lambda>x. case x of
               Inl (Inl a) \<Rightarrow> 0
             | Inl (Inr a) \<Rightarrow> 3
             | Inr (Inl a) \<Rightarrow> 2
             | Inr (Inr a) \<Rightarrow> Suc 0,
         \<lambda>x. case x of
               Inl (Inl a) \<Rightarrow> 0
             | Inl (Inr (h, n, t, el, d, keys, st)) \<Rightarrow> length keys
             | Inr (Inl a) \<Rightarrow> 0
             | Inr (Inr (h, n, el, items, d, st)) \<Rightarrow> length items]") auto

section \<open>Notification: emitBinding and the set trap\<close>

text \<open>
  \<^verbatim>\<open>
  emitBinding(listenerId, binding) {
    const { element, func, property } = binding;
    let value;
    if (typeof func === "string") {
      const newFunc = new Function("data", `return ${func}`)(this.data);
      value = newFunc(this.data[listenerId], e, c);
    } else {
      value = func(this.data[listenerId], e, c);
    }
    this.setElementAttribute(element, property, value, listenerId, 0);
  }
  \<close>
  The text is the same in both files; \<open>setElementAttribute\<close> is the one of the file, and
  is a parameter here. Calling something that is not a function is a TypeError.
\<close>

fun callable :: "dv \<Rightarrow> (sv \<Rightarrow> err + dv) option" where
  "callable (DFun src f) = Some f"
| "callable _ = None"

type_synonym applier = "nid \<Rightarrow> string \<Rightarrow> dv \<Rightarrow> string option \<Rightarrow> depth \<Rightarrow> state \<Rightarrow> err + state"

definition emitBinding :: "applier \<Rightarrow> host \<Rightarrow> string \<Rightarrow> binding \<Rightarrow> state \<Rightarrow> err + state" where
  "emitBinding setElementAttribute h listenerId b st =
     (case (if is_string (func b) then evalJS h (''return '' @ to_string (func b))
            else Inr (func b)) of
        Inl e \<Rightarrow> Inl e
      | Inr fn \<Rightarrow>
          (case proxy_get (store st) listenerId of
             Inl e \<Rightarrow> Inl e
           | Inr input \<Rightarrow>
               (case callable fn of
                  None \<Rightarrow> Inl TypeError
                | Some f \<Rightarrow>
                    (case f input of
                       Inl e \<Rightarrow> Inl e
                     | Inr value \<Rightarrow>
                         setElementAttribute (element b) (property b) value (Some listenerId)
                           (DepthNum 0)
                           (st\<lparr>evlog := evlog st @ [Reeval listenerId (element b) (property b)]\<rparr>)))))"

text \<open>
  \<open>bindings.forEach\<close> visits the bindings the array held when the loop began: a binding
  pushed meanwhile is not visited, and \<open>clearChildren\<close> replaces the arrays of
  \<open>this.bindings\<close> by filtered copies, leaving the array being visited as it was.
\<close>

fun emitAll :: "applier \<Rightarrow> host \<Rightarrow> string \<Rightarrow> binding list \<Rightarrow> state \<Rightarrow> err + state" where
  "emitAll setElementAttribute h listenerId [] st = Inr st"
| "emitAll setElementAttribute h listenerId (b # bs) st =
     (case emitBinding setElementAttribute h listenerId b st of
        Inl e \<Rightarrow> Inl e
      | Inr st' \<Rightarrow> emitAll setElementAttribute h listenerId bs st')"

text \<open>
  The \<open>set\<close> trap: the store half above, then the notification. When \<open>self.bindings\<close>
  has no array under the hook but inherits a member of that name, \<open>bindings.forEach\<close> is
  not a function.
\<close>

definition proxy_set :: "applier \<Rightarrow> host \<Rightarrow> string \<Rightarrow> jv \<Rightarrow> state \<Rightarrow> err + state" where
  "proxy_set setElementAttribute h listenerId value st =
     (case store_set (store st) listenerId value of
        Inl e \<Rightarrow> Inl e
      | Inr target' \<Rightarrow>
          (case bindings_at st listenerId of
             Absent \<Rightarrow> Inr (st\<lparr>store := target'\<rparr>)
           | Own bs \<Rightarrow> emitAll setElementAttribute h listenerId bs (st\<lparr>store := target'\<rparr>)
           | Inherited \<Rightarrow> Inl TypeError))"

definition proxy_set1 :: "host \<Rightarrow> nat \<Rightarrow> string \<Rightarrow> jv \<Rightarrow> state \<Rightarrow> err + state" where
  "proxy_set1 h fuel = proxy_set (setElementAttribute1 h fuel) h"

definition proxy_set2 :: "host \<Rightarrow> nat \<Rightarrow> string \<Rightarrow> jv \<Rightarrow> state \<Rightarrow> err + state" where
  "proxy_set2 h fuel = proxy_set (setElementAttribute2 h fuel) h"

section \<open>Hydration: the reconstruction scan of the bootstrap script\<close>

text \<open>
  The script that the server injects runs in the browser, on the document parsed from
  the markup:
  \<^verbatim>\<open>
  const elements = document.querySelectorAll("[data-listener-id]");
  elements.forEach((element) => {
    const listenerId = element.getAttribute("data-listener-id");
    if (!App.bindings[listenerId]) { App.bindings[listenerId] = []; }
    const hyphenToCamelCase = (str) => str.replace(/-([a-z])/g, (g) => g[1].toUpperCase());
    Array.from(element.attributes).forEach((attr) => {
      if (attr.name.startsWith("data-bind-to-")) {
        let property = attr.name.slice("data-bind-to-".length);
        if (!property.startsWith("data-")) { property = hyphenToCamelCase(property); }
        try {
          const func = new Function("return " + attr.value)();
          if (typeof func === "function") {
            App.bindings[listenerId].push({ element, property, func });
          }
        } catch (e) {
          // Ignore attributes that are not functions
        }
      }
    });
  });
  \<close>
\<close>

fun hyphenToCamelCase :: "string \<Rightarrow> string" where
  "hyphenToCamelCase (a # b # rest) =
     (if a = CHR ''-'' \<and> is_lower b then to_upper b # hyphenToCamelCase rest
      else a # hyphenToCamelCase (b # rest))"
| "hyphenToCamelCase s = s"

definition bound_property :: "string \<Rightarrow> string" where
  "bound_property name =
     (let property = drop (length ''data-bind-to-'') name
      in if starts_with ''data-'' property then property else hyphenToCamelCase property)"

text \<open>
  What the \<open>try\<close> block does for one attribute: it throws when the engine rejects the
  text, and when \<open>App.bindings[listenerId]\<close> is an inherited member, which has no \<open>push\<close>.
\<close>

definition recover :: "host \<Rightarrow> nid \<Rightarrow> string \<Rightarrow> string \<times> string \<Rightarrow> state \<Rightarrow> err + state" where
  "recover h el listenerId attr st =
     (case evalJS h (''return '' @ snd attr) of
        Inl e \<Rightarrow> Inl e
      | Inr fn \<Rightarrow>
          if is_function fn
          then pushBinding listenerId
                 \<lparr>element = el, func = fn, property = bound_property (fst attr)\<rparr> st
          else Inr st)"

text \<open>The \<open>catch\<close> block is empty: the scan goes on with the state of before.\<close>

definition hydrate_attr :: "host \<Rightarrow> nid \<Rightarrow> string \<Rightarrow> string \<times> string \<Rightarrow> state \<Rightarrow> state" where
  "hydrate_attr h el listenerId attr st =
     (if starts_with ''data-bind-to-'' (fst attr)
      then (case recover h el listenerId attr st of Inl e \<Rightarrow> st | Inr st' \<Rightarrow> st')
      else st)"

definition ensure_bindings :: "string \<Rightarrow> state \<Rightarrow> state" where
  "ensure_bindings listenerId st =
     (case bindings_at st listenerId of
        Absent \<Rightarrow> st\<lparr>bindings := AList.update listenerId [] (bindings st)\<rparr>
      | Own bs \<Rightarrow> st
      | Inherited \<Rightarrow> st)"

definition hydrate_element :: "host \<Rightarrow> nid \<Rightarrow> state \<Rightarrow> state" where
  "hydrate_element h el st =
     (case elem_at st el of
        None \<Rightarrow> st
      | Some (ns, tag, as, ks) \<Rightarrow>
          (case map_of as ''data-listener-id'' of
             None \<Rightarrow> st
           | Some listenerId \<Rightarrow>
               fold (hydrate_attr h el listenerId) as (ensure_bindings listenerId st)))"

text \<open>\<open>hydrate\<close> scans the elements of the document in document order.\<close>

definition hydrate :: "host \<Rightarrow> nid list \<Rightarrow> state \<Rightarrow> state" where
  "hydrate h els st = fold (hydrate_element h) els st"

section \<open>Auxiliary notions for the statements\<close>

text \<open>
  The slice a hook holds (what a read returns for a top-level key that the store has,
  \<open>null\<close> for a key it has not); the bindings registered under a key; the
  re-evaluations recorded in the log; and two hosts and a
  state for concrete runs: a browser and a server whose JavaScript engine rejects every
  source text and prints a built-in on one line, whose DOM accepts every name and gives
  a \<open>dataset\<close> to the elements of HTML and SVG, whose HTML parser yields no node, and
  which import the engine from the site itself.
\<close>

definition current_slice :: "store \<Rightarrow> string \<Rightarrow> sv" where
  "current_slice target h =
     (case map_of target h of None \<Rightarrow> SNull | Some v \<Rightarrow> if v = SUndef then SNull else v)"

definition registered :: "state \<Rightarrow> string \<Rightarrow> binding list" where
  "registered st key = (case map_of (bindings st) key of None \<Rightarrow> [] | Some bs \<Rightarrow> bs)"

fun is_reeval :: "event \<Rightarrow> bool" where
  "is_reeval (Reeval k el p) = True"
| "is_reeval (Initial k el p) = False"

definition reevals :: "state \<Rightarrow> event list" where
  "reevals st = filter is_reeval (evlog st)"

definition same_frame :: "state \<Rightarrow> state \<Rightarrow> bool" where
  "same_frame st st' = (store st' = store st \<and> reevals st' = reevals st)"

definition native_code :: "string \<Rightarrow> string" where
  "native_code name =
     ''function '' @ (if name = ''constructor'' then ''Object'' else name) @ ''() { [native code] }''"

definition jsdom_dataset :: "string \<Rightarrow> bool" where
  "jsdom_dataset ns = (ns = xhtml \<or> ns = ''http://www.w3.org/2000/svg'')"

definition browser :: host where
  "browser = \<lparr>isServer = False, evalJS = (\<lambda>body. Inl SyntaxError), nativeText = native_code,
     validName = (\<lambda>name. True), validQName = (\<lambda>ns name. True), parseHTML = (\<lambda>markup. []),
     hasDataset = jsdom_dataset, cdnBaseUrl = ''''\<rparr>"


definition blank :: state where
  "blank = \<lparr>store = [], bindings = [], nodes = [], evlog = []\<rparr>"

text \<open>
  The evaluator \<open>(person) => person.name\<close> (on the slices that hold a string, or nothing,
  under \<open>name\<close>), and a browser state with one \<open>span\<close> whose \<open>textContent\<close> is bound to
  it under the tether \<open>person\<close> and whose \<open>title\<close> is bound under the key \<open>person.name\<close>.
\<close>

definition person_name :: "sv \<Rightarrow> err + dv" where
  "person_name person =
     (case person of
        SObj kvs \<Rightarrow> (case map_of kvs ''name'' of Some (SStr s) \<Rightarrow> Inr (DStr s) | _ \<Rightarrow> Inr DUndef)
      | SNull \<Rightarrow> Inl TypeError
      | SUndef \<Rightarrow> Inl TypeError
      | SNative holder name \<Rightarrow> Inl Unmodelled
      | _ \<Rightarrow> Inr DUndef)"


text \<open>
  A browser state holding \<open><div><section><span>Jo</span></section></div>\<close>, the \<open>class\<close>
  of the \<open>section\<close> and the \<open>textContent\<close> of the \<open>span\<close> bound under \<open>person\<close>: what
  rendering \<open>{children: [{tagName: "section", class: (person) => ..., children: [{tagName:
  "span", textContent: (person) => person.name}]}]}\<close> leaves. And a browser whose
  JavaScript engine accepts the one source text \<open>(person) => person.name\<close>.
\<close>

definition nested_span :: state where
  "nested_span =
     \<lparr>store = [(''person'', SObj [(''name'', SStr ''Jo'')])],
      bindings =
        [(''person'',
          [\<lparr>element = 1, func = DFun ''(person) => person.name'' person_name, property = ''class''\<rparr>,
           \<lparr>element = 2, func = DFun ''(person) => person.name'' person_name,
              property = ''textContent''\<rparr>])],
      nodes = [Elem xhtml ''div'' [] [1], Elem xhtml ''section'' [(''class'', ''Jo'')] [2],
               Elem xhtml ''span'' [] [3], Text ''Jo''],
      evlog = []\<rparr>"

definition parsing_browser :: host where
  "parsing_browser =
     \<lparr>isServer = False,
      evalJS = (\<lambda>body. if body = ''return (person) => person.name''
                          \<or> body = ''return ((person) => person.name)''
                       then Inr (DFun ''(person) => person.name'' person_name)
                       else Inl SyntaxError),
      nativeText = native_code,
      validName = (\<lambda>name. True), validQName = (\<lambda>ns name. True), parseHTML = (\<lambda>markup. []),
      hasDataset = jsdom_dataset, cdnBaseUrl = ''''\<rparr>"







text \<open>
  The evaluators \<open>(identity, e) => e.Strong(identity.first_name)\<close>, which returns the
  descriptor of a \<open>strong\<close> element, and \<open>(identity) => identity.last_name\<close> (on the
  slices that hold a string, or nothing, under these names); a browser
  state with two \<open>span\<close> elements, the \<open>child\<close> of the first and the \<open>textContent\<close> of the
  second bound to them under the tether \<open>identity\<close>, as the hydration scan registers
  them; and a value to write.
\<close>

definition strong_first_name :: "sv \<Rightarrow> err + dv" where
  "strong_first_name identity =
     (case identity of
        SNull \<Rightarrow> Inl TypeError
      | SUndef \<Rightarrow> Inl TypeError
      | SObj kvs \<Rightarrow>
          Inr (DObj [(''tagName'', DStr ''strong''),
                     (''textContent'',
                        (case map_of kvs ''first_name'' of Some (SStr s) \<Rightarrow> DStr s | _ \<Rightarrow> DUndef))])
      | SNative holder name \<Rightarrow> Inl Unmodelled
      | _ \<Rightarrow> Inr (DObj [(''tagName'', DStr ''strong''), (''textContent'', DUndef)]))"

definition last_name :: "sv \<Rightarrow> err + dv" where
  "last_name identity =
     (case identity of
        SNull \<Rightarrow> Inl TypeError
      | SUndef \<Rightarrow> Inl TypeError
      | SObj kvs \<Rightarrow> Inr (case map_of kvs ''last_name'' of Some (SStr s) \<Rightarrow> DStr s | _ \<Rightarrow> DUndef)
      | SNative holder name \<Rightarrow> Inl Unmodelled
      | _ \<Rightarrow> Inr DUndef)"

definition greeting :: state where
  "greeting =
     \<lparr>store = [],
      bindings =
        [(''identity'',
          [\<lparr>element = 0,
             func = DFun ''(identity, e) => e.Strong(identity.first_name)'' strong_first_name,
             property = ''child''\<rparr>,
           \<lparr>element = 1, func = DFun ''(identity) => identity.last_name'' last_name,
             property = ''textContent''\<rparr>])],
      nodes = [Elem xhtml ''span'' [] [], Elem xhtml ''span'' [] []],
      evlog = []\<rparr>"

definition john_doe :: jv where
  "john_doe = JObj [(''first_name'', JStr ''John''), (''last_name'', JStr ''Doe'')]"


text \<open>
  A descriptor whose \<open>title\<close> is a serialized function that the engine rejects, behind
  two plain attributes; and the document of a server-rendered page, on which the \<open>title\<close>
  of a paragraph carries that text beside a \<open>textContent\<close> that the engine accepts, and
  a \<open>span\<close> has a bound \<open>class\<close>.
\<close>

definition broken_note :: dv where
  "broken_note = DObj [(''tagName'', DStr ''p''), (''class'', DStr ''note''),
     (''title'', DStr ''(person) => '')]"

definition served_page :: state where
  "served_page =
     \<lparr>store = [],
      bindings = [],
      nodes = [Elem xhtml ''p''
                 [(''data-listener-id'', ''person''),
                  (''data-bind-to-title'', ''(person) => ''),
                  (''data-bind-to-text-content'', ''(person) => person.name'')] [],
               Elem xhtml ''span''
                 [(''data-listener-id'', ''person''),
                  (''data-bind-to-class'', ''(person) => person.name'')] []],
      evlog = []\<rparr>"
text \<open>
  Two documents are alike when they are the document of the same element in states that
  are equal but for the literal pieces of the bootstrap script, that is for the layout of
  its text.
\<close>

fun is_json :: "piece \<Rightarrow> bool" where
  "is_json (Json d) = True"
| "is_json (Lit s) = False"

definition unlaid :: "node \<Rightarrow> node" where
  "unlaid n = (case n of Bootstrap ps \<Rightarrow> Bootstrap (filter is_json ps) | _ \<Rightarrow> n)"

definition unlaid_state :: "state \<Rightarrow> state" where
  "unlaid_state st = st\<lparr>nodes := map unlaid (nodes st)\<rparr>"


declare render1.simps [simp del] attrs1.simps [simp del]
  setElementAttribute1.simps [simp del] children1.simps [simp del]
declare render2.simps [simp del] attrs2.simps [simp del]
  setElementAttribute2.simps [simp del] children2.simps [simp del]
declare string_of_nat.simps [simp del]

section \<open>DataStore: reads and writes\<close>

lemma split_on_nodot: "c \<notin> set s \<Longrightarrow> split_on c s = [s]"
  by (induction s) auto

lemma inherited_object:
  "inherited ''Object'' [] k = (if k \<in> set object_prototype then SNative ''Object'' k else SUndef)"
  by (simp add: inherited_def object_prototype_def)

text \<open>
  A read of a top-level key: the slice the key holds, or else the member of that name
  that the target inherits, or else \<open>null\<close>.
\<close>

lemma proxy_get_hook:
  assumes "CHR ''.'' \<notin> set h"
  shows "proxy_get target h =
           Inr (case map_of target h of
                  Some v \<Rightarrow> current_slice target h
                | None \<Rightarrow> if h \<in> set object_prototype then SNative ''Object'' h else SNull)"
  using assms
  by (simp add: proxy_get_def split_on_nodot current_slice_def inherited_object
      split: option.splits)

lemma deepMerge_props_fold: "deepMerge_props target kvs = fold merge_entry kvs target"
  by (induction kvs arbitrary: target) (auto simp: merge_entry_def)

lemma deepMerge_elems_fold:
  "deepMerge_elems target i xs
     = fold merge_entry (zip (map string_of_nat [i..<i + length xs]) xs) target"
proof (induction xs arbitrary: target i)
  case Nil
  then show ?case by simp
next
  case (Cons v xs)
  have "[i..<i + length (v # xs)] = i # [Suc i..<Suc i + length xs]"
    using upt_conv_Cons[of i "i + length (v # xs)"] by simp
  with Cons.IH[of _ "Suc i"] show ?case
    by (simp add: merge_entry_def)
qed

text \<open>\<open>deepMerge\<close> is the loop \<open>for (const key in source)\<close> over the enumerable keys.\<close>

lemma deepMerge_loop: "deepMerge target source = fold merge_entry (enumerable source) target"
proof (cases source)
  case (JStr s)
  have "fold merge_entry (zip ks (map (\<lambda>c. JStr [c]) cs)) t
      = fold (\<lambda>(k, c). AList.update k (SStr [c])) (zip ks cs) t" for ks cs t
    by (induction ks cs arbitrary: t rule: list_induct2') (simp_all add: merge_entry_def)
  with JStr show ?thesis by simp
qed (simp_all add: deepMerge_props_fold deepMerge_elems_fold index_keys_def)

text \<open>
  C4. The claim: a read of a tether of which some segment does not resolve returns the
  absent value and never throws. The \<open>get\<close> trap tests each step against \<open>undefined\<close>
  only, so it steps into a \<open>null\<close> member and the next step throws: after
  \<open>App.data.user = { name: null }\<close>, reading \<open>"user.name.first"\<close> is a TypeError.
\<close>

theorem read_through_null_member_throws:
  "store_set [] ''user'' (JObj [(''name'', JNull)]) = Inr [(''user'', SObj [(''name'', SNull)])]
   \<and> proxy_get [(''user'', SObj [(''name'', SNull)])] ''user.name.first'' = Inl TypeError"
  by code_simp

text \<open>
  C2. The claim: after \<open>write(h, A)\<close> and \<open>write(h, B)\<close> the slice is the merge of \<open>A\<close> and
  \<open>B\<close>, a key of \<open>A\<close> that \<open>B\<close> lacks keeping its value unchanged. The example of the
  README (\<open>children: ["one", "two", "three"]\<close>, then an update of \<open>elementClass\<close>): the
  array does not survive, \<open>deepMerge\<close> stores a plain object with the keys \<open>"0"\<close>, \<open>"1"\<close>,
  \<open>"2"\<close> in its place.
\<close>

theorem merge_turns_array_into_object:
  "store_set [] ''testData''
     (JObj [(''elementClass'', JStr ''test-element''),
            (''elementText'', JStr ''This is a test of data-binding''),
            (''children'', JArr [JStr ''one'', JStr ''two'', JStr ''three''])])
   = Inr [(''testData'', SObj [(''elementClass'', SStr ''test-element''),
            (''elementText'', SStr ''This is a test of data-binding''),
            (''children'', SObj [(''0'', SStr ''one''), (''1'', SStr ''two''), (''2'', SStr ''three'')])])]
   \<and> store_set
        [(''testData'', SObj [(''elementClass'', SStr ''test-element''),
            (''elementText'', SStr ''This is a test of data-binding''),
            (''children'', SObj [(''0'', SStr ''one''), (''1'', SStr ''two''), (''2'', SStr ''three'')])])]
        ''testData'' (JObj [(''elementClass'', JStr ''new-class'')])
      = Inr [(''testData'', SObj [(''elementClass'', SStr ''new-class''),
            (''elementText'', SStr ''This is a test of data-binding''),
            (''children'', SObj [(''0'', SStr ''one''), (''1'', SStr ''two''), (''2'', SStr ''three'')])])]"
  by code_simp

section \<open>Pruning\<close>

text \<open>
  C5. A descriptor that carries \<open>if\<close> with the value \<open>false\<close> renders to \<open>null\<close> in both
  variants, whatever the fuel, the mode and the depth, and the state is the one before:
  no node is created, no binding is registered, no evaluator is called.
\<close>

theorem if_false_renders_nothing:
  assumes "map_of kvs ''if'' = Some (DBool False)"
  shows "render1 h fuel (DObj kvs) callback depth st = Inr (RNull, st)
       \<and> render2 h fuel (DObj kvs) depth st = Inr (RNull, st)"
proof -
  from assms have "''if'' \<in> set (map fst kvs)"
    by (metis map_of_eq_None_iff option.distinct(1) set_map)
  with assms show ?thesis
    by (simp add: render1.simps render2.simps pruned1_def pruned2_def)
qed

theorem if_false_renders_nothing_witness:
  "map_of [(''tagName'', DStr ''p''), (''if'', DBool False),
           (''children'', DArr [DObj [(''textContent'',
               DFun ''(person) => person.name'' (\<lambda>person. Inr (DStr ''Jo'')))]])] ''if''
     = Some (DBool False)
   \<and> render1 browser 3
       (DObj [(''tagName'', DStr ''p''), (''if'', DBool False),
              (''children'', DArr [DObj [(''textContent'',
                  DFun ''(person) => person.name'' (\<lambda>person. Inr (DStr ''Jo'')))]])])
       SUndef (DepthNum 0) blank = Inr (RNull, blank)
   \<and> render2 browser 3
       (DObj [(''tagName'', DStr ''p''), (''if'', DBool False),
              (''children'', DArr [DObj [(''textContent'',
                  DFun ''(person) => person.name'' (\<lambda>person. Inr (DStr ''Jo'')))]])])
       (DepthNum 0) blank = Inr (RNull, blank)"
  using if_false_renders_nothing
    [of "[(''tagName'', DStr ''p''), (''if'', DBool False),
          (''children'', DArr [DObj [(''textContent'',
              DFun ''(person) => person.name'' (\<lambda>person. Inr (DStr ''Jo'')))]])]"
        browser 3 SUndef "DepthNum 0" blank]
  by simp

section \<open>What rendering leaves alone\<close>

text \<open>
  Rendering and attribute application never write the store and never re-evaluate a
  binding: they create nodes, change attributes and children, register bindings and
  evaluate new binding sites. \<open>same_frame\<close> says so; it is proved for each DOM operation
  and then, by computation induction, for the four functions of each variant.
\<close>

lemma same_frame_iff:
  "same_frame st st' = (store st' = store st \<and> filter is_reeval (evlog st') = filter is_reeval (evlog st))"
  by (simp add: same_frame_def reevals_def)

lemma same_frame_refl [simp]: "same_frame st st"
  by (simp add: same_frame_iff)

lemma same_frame_trans: "same_frame a b \<Longrightarrow> same_frame b c \<Longrightarrow> same_frame a c"
  by (simp add: same_frame_iff)

lemma frame_put_node [simp]: "same_frame st (put_node el n st)"
  by (simp add: same_frame_iff put_node_def)

lemma frame_new_node: "new_node n st = (i, st') \<Longrightarrow> same_frame st st'"
  by (auto simp: same_frame_iff new_node_def)

lemma frame_createTextNode: "createTextNode s st = (i, st') \<Longrightarrow> same_frame st st'"
  by (simp add: createTextNode_def frame_new_node)

lemma frame_createElementNS: "createElementNS h ns t st = Inr (i, st') \<Longrightarrow> same_frame st st'"
  by (auto simp: createElementNS_def frame_new_node split: if_splits)

lemma frame_dom_setAttribute: "dom_setAttribute h el k v st = Inr st' \<Longrightarrow> same_frame st st'"
  by (auto simp: dom_setAttribute_def split: option.splits if_splits)

lemma frame_dom_setAttributeNS: "dom_setAttributeNS h el k v st = Inr st' \<Longrightarrow> same_frame st st'"
  by (auto simp: dom_setAttributeNS_def split: option.splits if_splits)

lemma frame_dom_removeAttribute: "dom_removeAttribute el k st = Inr st' \<Longrightarrow> same_frame st st'"
  by (auto simp: dom_removeAttribute_def split: option.splits if_splits)

lemma frame_set_childNodes: "set_childNodes el ks st = Inr st' \<Longrightarrow> same_frame st st'"
  by (auto simp: set_childNodes_def split: option.splits if_splits)

lemma frame_dom_appendChild: "dom_appendChild el c st = Inr st' \<Longrightarrow> same_frame st st'"
  by (simp add: dom_appendChild_def frame_set_childNodes)

lemma frame_dom_prepend: "dom_prepend el c st = Inr st' \<Longrightarrow> same_frame st st'"
  by (simp add: dom_prepend_def frame_set_childNodes)

lemma frame_dom_set_innerHTML: "dom_set_innerHTML h el m st = Inr st' \<Longrightarrow> same_frame st st'"
  by (auto simp: dom_set_innerHTML_def same_frame_iff set_childNodes_def elem_at_def put_node_def split: prod.splits option.splits if_splits)

lemma frame_setAttribute: "setAttribute h el k v st = Inr st' \<Longrightarrow> same_frame st st'"
  by (auto simp: setAttribute_def split: sum.splits if_splits
      dest!: frame_dom_removeAttribute frame_dom_setAttributeNS frame_dom_setAttribute intro: same_frame_trans)

lemma frame_setStyle: "setStyle h el v st = Inr st' \<Longrightarrow> same_frame st st'"
  by (simp add: setStyle_def frame_dom_setAttribute)

lemma frame_setTextContent: "setTextContent el v st = Inr st' \<Longrightarrow> same_frame st st'"
  by (auto simp: setTextContent_def split: prod.splits dest!: frame_createTextNode frame_set_childNodes intro: same_frame_trans)

lemma frame_insertText: "insertText b el v st = Inr st' \<Longrightarrow> same_frame st st'"
  by (auto simp: insertText_def split: prod.splits if_splits dest!: frame_createTextNode frame_dom_prepend frame_dom_appendChild intro: same_frame_trans)

lemma frame_clearChild [simp]: "same_frame st (clearChild el c st)"
  by (auto simp: clearChild_def removeChild_def same_frame_iff elem_at_def put_node_def split: option.splits node.splits)

lemma frame_fold_clearChild: "same_frame st (fold (clearChild el) cs st)"
proof (induction cs arbitrary: st)
  case Nil show ?case by simp
next
  case (Cons c cs)
  have "same_frame (clearChild el c st) (fold (clearChild el) cs (clearChild el c st))" by (rule Cons.IH)
  then show ?case using frame_clearChild same_frame_trans by fastforce
qed

lemma frame_clearChildren [simp]: "same_frame st (clearChildren el st)"
  by (simp add: clearChildren_def frame_fold_clearChild)

lemma frame_children_clear: "children_clear el v st = Inr st' \<Longrightarrow> same_frame st st'"
  by (auto simp: children_clear_def split: if_splits)

lemma frame_attach: "attach el r st = Inr st' \<Longrightarrow> same_frame st st'"
  by (cases r) (auto dest: frame_dom_appendChild)

lemma frame_attach_front: "attach_front el r st = Inr st' \<Longrightarrow> same_frame st st'"
  by (cases r) (auto dest: frame_dom_prepend)

lemma frame_pushBinding: "pushBinding k b st = Inr st' \<Longrightarrow> same_frame st st'"
  by (auto simp: pushBinding_def same_frame_iff split: found.splits)

lemma frame_dataset: "dataset_listenerId h el v st = Inr st' \<Longrightarrow> same_frame st st'"
  by (auto simp: dataset_listenerId_def split: option.splits if_splits)

lemma frame_declareBinding: "declareBinding h el key src f st = Inr st' \<Longrightarrow> same_frame st st'"
  by (auto simp: declareBinding_def Let_def split: if_splits sum.splits
      dest!: frame_dataset frame_dom_setAttribute frame_pushBinding intro: same_frame_trans)

lemma frame_evaluate: "evaluate lk el key f st = Inr (r, st') \<Longrightarrow> same_frame st st'"
  by (auto simp: evaluate_def same_frame_iff split: sum.splits)

lemma frame_attribute_value: "attribute_value h el key v st = Inr (r, st') \<Longrightarrow> same_frame st st'"
  by (cases v) (auto split: sum.splits dest!: frame_declareBinding frame_evaluate intro: same_frame_trans)

lemma frame_attribute_step: "attribute_step h t el key st = Inr (r, st') \<Longrightarrow> same_frame st st'"
  by (auto simp: attribute_step_def split: sum.splits dest: frame_attribute_value)

lemma frame_set_script_texts: "same_frame st (set_script_texts script ts st)"
proof (induction ts arbitrary: st)
  case Nil
  show ?case by simp
next
  case (Cons ps ts)
  obtain t st1 where n: "new_node (Bootstrap ps) st = (t, st1)"
    by (cases "new_node (Bootstrap ps) st")
  have "same_frame st st1"
    using n by (rule frame_new_node)
  moreover have "same_frame st1 (put_node script (script_element [t]) st1)"
    by simp
  moreover have "same_frame (put_node script (script_element [t]) st1)
      (set_script_texts script ts (put_node script (script_element [t]) st1))"
    by (rule Cons.IH)
  ultimately show ?case
    using n by (simp add: same_frame_iff put_node_def)
qed

lemma frame_insert_bootstrap: "insert_bootstrap ts el st = Inr st' \<Longrightarrow> same_frame st st'"
proof -
  assume a: "insert_bootstrap ts el st = Inr st'"
  obtain script st1 where n: "new_node (script_element []) st = (script, st1)"
    by (cases "new_node (script_element []) st")
  have 1: "same_frame st st1"
    using n by (rule frame_new_node)
  have 2: "same_frame st1 (set_script_texts script ts st1)"
    by (rule frame_set_script_texts)
  from a n have "same_frame (set_script_texts script ts st1) st'"
    by (auto simp: insert_bootstrap_def insertBefore_def Let_def
        split: list.splits if_splits dest: frame_dom_appendChild frame_set_childNodes)
  with 1 2 show ?thesis
    by (blast intro: same_frame_trans)
qed

lemma frame_server_root: "server_root texts el st = Inr (r, st') \<Longrightarrow> same_frame st st'"
  by (auto simp: server_root_def split: option.splits bool.splits sum.splits
      dest: frame_insert_bootstrap)

lemma frame_finish1: "finish1 h el cb d st = Inr (r, st') \<Longrightarrow> same_frame st st'"
  by (auto simp: finish1_def handleServerSideRendering1_def split: if_splits
      dest: frame_server_root)

lemma frame_finish2: "finish2 h el d st = Inr (r, st') \<Longrightarrow> same_frame st st'"
  by (auto simp: finish2_def handleServerSideRendering_def split: if_splits
      dest: frame_server_root)



lemma render1_Inr_cases:
  assumes "render1 h fuel t cb d st = Inr (r, st')"
  obtains (pruned) "pruned1 t" "r = RNull" "st' = st"
  | (textnode) i where "\<not> pruned1 t" "is_string t" "createTextNode (to_string t) st = (i, st')" "r = RNode i"
  | (element) el st1 st2 where "\<not> pruned1 t" "\<not> is_string t" "fuel \<noteq> 0"
      "createElementNS h (getNamespace1 h (tagName1 t)) (tagName1 t) st = Inr (el, st1)"
      "attrs1 h (fuel - 1) t el d (own_keys t) st1 = Inr st2"
      "finish1 h el cb d st2 = Inr (r, st')"
  using assms
  by (subst (asm) render1.simps) (auto split: if_splits sum.splits prod.splits simp: map_prod_def)

lemma attrs1_Inr_cases:
  assumes "attrs1 h n t el d (key # keys) st = Inr st'"
  obtains (skip) st1 where "attribute_step h t el key st = Inr (None, st1)"
      "attrs1 h n t el d keys st1 = Inr st'"
  | (applied) v l st1 st2 where "attribute_step h t el key st = Inr (Some (v, l), st1)"
      "setElementAttribute1 h n el key v l d st1 = Inr st2"
      "attrs1 h n t el d keys st2 = Inr st'"
  using assms
  by (subst (asm) attrs1.simps) (auto split: sum.splits prod.splits option.splits)

lemma children1_Inr_cases:
  assumes "children1 h n el (child # rest) lst st = Inr st'"
  obtains r st1 st2 where "render1 h n child lst DepthNull st = Inr (r, st1)"
      "attach el r st1 = Inr st2" "children1 h n el rest lst st2 = Inr st'"
  using assms
  by (subst (asm) children1.simps) (auto split: sum.splits prod.splits)

lemma setElementAttribute1_Inr_cases:
  assumes "setElementAttribute1 h n el key v l d st = Inr st'"
  obtains (children) lst st1 items where "key = ''children'' \<or> key = ''child''"
      "proxy_get (store st) (listener_key l) = Inr lst"
      "children_clear el v st = Inr st1" "children_items key v = Inr items"
      "children1 h n el items lst st1 = Inr st'"
  | (attribute) "key \<notin> set nonAttributes" "setAttribute h el key v st = Inr st'"
  | (style) "key = ''style''" "setStyle h el v st = Inr st'"
  | (innerHTML) "key = ''innerHTML''" "setInnerHTML1 h el v st = Inr st'"
  | (textContent) "key = ''textContent''" "setTextContent el v st = Inr st'"
  | (insert) "key = ''prepend'' \<or> key = ''append''" "\<not> typeof_object v"
      "insertText (key = ''prepend'') el v st = Inr st'"
  | (none) "key = ''tagName'' \<or> key = ''if''" "st' = st"
  using assms
  apply (subst (asm) setElementAttribute1.simps)
  apply (simp split: sum.splits if_splits add: nonAttributes_def)
  done

lemma frame1:
  "render1 h fuel t cb d st = Inr (r, st') \<Longrightarrow> same_frame st st'"
  "attrs1 h n t el d keys st = Inr st' \<Longrightarrow> same_frame st st'"
  "setElementAttribute1 h n el key v l d st = Inr st' \<Longrightarrow> same_frame st st'"
  "children1 h n el items lst st = Inr st' \<Longrightarrow> same_frame st st'"
proof (induction h fuel t cb d st and h n t el d keys st and h n el key v l d st and h n el items lst st
    arbitrary: r st' and st' and st' and st'
    rule: render1_attrs1_setElementAttribute1_children1.induct)
  case (1 h fuel template callback depth st)
  from "1.prems" show ?case
  proof (cases rule: render1_Inr_cases)
    case pruned
    then show ?thesis by simp
  next
    case (textnode i)
    then show ?thesis by (simp add: frame_createTextNode)
  next
    case (element el st1 st2)
    have "same_frame st1 st2"
      using "1.IH"[OF element(1) element(2) element(3) element(4) refl element(5)] .
    with element show ?thesis
      by (blast intro: same_frame_trans dest: frame_createElementNS frame_finish1)
  qed
next
  case (2 h n template el depth st)
  then show ?case by (simp add: attrs1.simps)
next
  case (3 h n template el depth key keys st)
  from "3.prems" show ?case
  proof (cases rule: attrs1_Inr_cases)
    case (skip st1)
    have "same_frame st1 st'"
      using "3.IH"(1)[OF skip(1) refl refl skip(2)] .
    with skip show ?thesis
      by (blast intro: same_frame_trans dest: frame_attribute_step)
  next
    case (applied v l st1 st2)
    have "same_frame st1 st2"
      using "3.IH"(2)[OF applied(1) refl refl refl applied(2)] .
    moreover have "same_frame st2 st'"
      using "3.IH"(3)[OF applied(1) refl refl refl applied(2) applied(3)] .
    ultimately show ?thesis using applied
      by (blast intro: same_frame_trans dest: frame_attribute_step)
  qed
next
  case (4 h n el key "value" listenerId depth st)
  from "4.prems" show ?case
  proof (cases rule: setElementAttribute1_Inr_cases)
    case (children lst st1 items)
    have "same_frame st1 st'"
      using "4.IH" children by (auto simp: nonAttributes_def)
    with children show ?thesis
      by (blast intro: same_frame_trans dest: frame_children_clear)
  qed (auto dest: frame_setAttribute frame_setStyle frame_setTextContent frame_insertText
        frame_dom_set_innerHTML simp: setInnerHTML1_def)
next
  case (5 h n el listener st)
  then show ?case by (simp add: children1.simps)
next
  case (6 h n el child rest listener st)
  from "6.prems" show ?case
  proof (cases rule: children1_Inr_cases)
    case (1 r st1 st2)
    have "same_frame st st1" using "6.IH"(1)[OF 1(1)] .
    moreover have "same_frame st2 st'" using "6.IH"(2)[OF 1(1) refl 1(2) 1(3)] .
    ultimately show ?thesis using 1
      by (blast intro: same_frame_trans dest: frame_attach)
  qed
qed


lemma render2_Inr_cases:
  assumes "render2 h fuel t d st = Inr (r, st')"
  obtains (pruned) "pruned2 t" "r = RNull" "st' = st"
  | (textnode) i where "\<not> pruned2 t" "is_string t" "createTextNode (to_string t) st = (i, st')" "r = RNode i"
  | (element) el st1 st2 where "\<not> pruned2 t" "\<not> is_string t" "fuel \<noteq> 0"
      "createElementNS h (getNamespace2 h (tagName2 t)) (tagName2 t) st = Inr (el, st1)"
      "attrs2 h (fuel - 1) t el d (own_keys t) st1 = Inr st2"
      "finish2 h el d st2 = Inr (r, st')"
  using assms
  by (subst (asm) render2.simps) (auto split: if_splits sum.splits prod.splits simp: map_prod_def)

lemma attrs2_Inr_cases:
  assumes "attrs2 h n t el d (key # keys) st = Inr st'"
  obtains (skip) st1 where "attribute_step h t el key st = Inr (None, st1)"
      "attrs2 h n t el d keys st1 = Inr st'"
  | (applied) v l st1 st2 where "attribute_step h t el key st = Inr (Some (v, l), st1)"
      "setElementAttribute2 h n el key v l d st1 = Inr st2"
      "attrs2 h n t el d keys st2 = Inr st'"
  using assms
  by (subst (asm) attrs2.simps) (auto split: sum.splits prod.splits option.splits)

lemma children2_Inr_cases:
  assumes "children2 h n el (child # rest) d st = Inr st'"
  obtains r st1 st2 where "render2 h n child d st = Inr (r, st1)"
      "attach el r st1 = Inr st2" "children2 h n el rest d st2 = Inr st'"
  using assms
  by (subst (asm) children2.simps) (auto split: sum.splits prod.splits)

lemma setElementAttribute2_Inr_cases:
  assumes "setElementAttribute2 h n el key v l d st = Inr st'"
  obtains (children) lst st1 items where "key = ''children'' \<or> key = ''child''"
      "proxy_get (store st) (listener_key l) = Inr lst"
      "children_clear el v st = Inr st1" "children_items2 key v = Inr items"
      "children2 h n el items (plus_one_sv lst) st1 = Inr st'"
  | (attribute) "key \<notin> set nonAttributes" "setAttribute h el key v st = Inr st'"
  | (style) "key = ''style''" "setStyle h el v st = Inr st'"
  | (innerHTML) "key = ''innerHTML''" "setInnerHTML2 h el v st = Inr st'"
  | (textContent) "key = ''textContent''" "setTextContent el v st = Inr st'"
  | (insert) "key = ''prepend'' \<or> key = ''append''" "\<not> typeof_object v"
      "insertText (key = ''prepend'') el v st = Inr st'"
  | (prepend) r st1 where "key = ''prepend''" "typeof_object v"
      "render2 h n v (plus_one_id l) st = Inr (r, st1)" "attach_front el r st1 = Inr st'"
  | (append) r st1 where "key = ''append''" "typeof_object v"
      "render2 h n v (plus_one_id l) st = Inr (r, st1)" "attach el r st1 = Inr st'"
  | (none) "key = ''tagName'' \<or> key = ''if''" "st' = st"
  using assms
  apply (subst (asm) setElementAttribute2.simps)
  apply (simp split: sum.splits if_splits prod.splits add: nonAttributes_def)
  done

lemma frame2:
  "render2 h fuel t d st = Inr (r, st') \<Longrightarrow> same_frame st st'"
  "attrs2 h n t el d keys st = Inr st' \<Longrightarrow> same_frame st st'"
  "setElementAttribute2 h n el key v l d st = Inr st' \<Longrightarrow> same_frame st st'"
  "children2 h n el items d st = Inr st' \<Longrightarrow> same_frame st st'"
proof (induction h fuel t d st and h n t el d keys st and h n el key v l d st and h n el items d st
    arbitrary: r st' and st' and st' and st'
    rule: render2_attrs2_setElementAttribute2_children2.induct)
  case (1 h fuel template depth st)
  from "1.prems" show ?case
  proof (cases rule: render2_Inr_cases)
    case pruned
    then show ?thesis by simp
  next
    case (textnode i)
    then show ?thesis by (simp add: frame_createTextNode)
  next
    case (element el st1 st2)
    have "same_frame st1 st2"
      using "1.IH"[OF element(1) element(2) element(3) element(4) refl element(5)] .
    with element show ?thesis
      by (blast intro: same_frame_trans dest: frame_createElementNS frame_finish2)
  qed
next
  case (2 h n template el depth st)
  then show ?case by (simp add: attrs2.simps)
next
  case (3 h n template el depth key keys st)
  from "3.prems" show ?case
  proof (cases rule: attrs2_Inr_cases)
    case (skip st1)
    have "same_frame st1 st'"
      using "3.IH"(1)[OF skip(1) refl refl skip(2)] .
    with skip show ?thesis
      by (blast intro: same_frame_trans dest: frame_attribute_step)
  next
    case (applied v l st1 st2)
    have "same_frame st1 st2"
      using "3.IH"(2)[OF applied(1) refl refl refl applied(2)] .
    moreover have "same_frame st2 st'"
      using "3.IH"(3)[OF applied(1) refl refl refl applied(2) applied(3)] .
    ultimately show ?thesis using applied
      by (blast intro: same_frame_trans dest: frame_attribute_step)
  qed
next
  case (4 h n el key "value" listenerId depth st)
  from "4.prems" show ?case
  proof (cases rule: setElementAttribute2_Inr_cases)
    case (children lst st1 items)
    have "same_frame st1 st'"
      using "4.IH"(2) children by (auto simp: nonAttributes_def)
    with children show ?thesis
      by (blast intro: same_frame_trans dest: frame_children_clear)
  next
    case (prepend r st1)
    have "same_frame st st1"
      using "4.IH"(1) prepend "4.prems" by (auto simp: nonAttributes_def setElementAttribute2.simps split: sum.splits)
    with prepend show ?thesis
      by (blast intro: same_frame_trans dest: frame_attach_front)
  next
    case (append r st1)
    have "same_frame st st1"
      using "4.IH"(3) append "4.prems" by (auto simp: nonAttributes_def setElementAttribute2.simps split: sum.splits)
    with append show ?thesis
      by (blast intro: same_frame_trans dest: frame_attach)
  qed (auto dest: frame_setAttribute frame_setStyle frame_setTextContent frame_insertText
        frame_dom_set_innerHTML simp: setInnerHTML2_def)
next
  case (5 h n el depth st)
  then show ?case by (simp add: children2.simps)
next
  case (6 h n el child rest depth st)
  from "6.prems" show ?case
  proof (cases rule: children2_Inr_cases)
    case (1 r st1 st2)
    have "same_frame st st1" using "6.IH"(1)[OF 1(1)] .
    moreover have "same_frame st2 st'" using "6.IH"(2)[OF 1(1) refl 1(2) 1(3)] .
    ultimately show ?thesis using 1
      by (blast intro: same_frame_trans dest: frame_attach)
  qed
qed


section \<open>Writes\<close>

lemma store_set_hook:
  assumes "CHR ''.'' \<notin> set h" and "\<not> names_proto v"
  shows "store_set target h v =
           Inr (AList.update h (SObj (deepMerge (spread (current_slice target h)) v)) target)"
proof (cases "map_of target h")
  case None
  with assms show ?thesis
    by (simp add: store_set_def proxy_get_hook current_slice_def Let_def)
next
  case (Some x)
  show ?thesis
  proof (cases "current_slice target h")
    case (SObj kvs)
    with assms Some show ?thesis
      by (simp add: store_set_def proxy_get_hook split_on_nodot Let_def)
  qed (use assms Some in \<open>simp_all add: store_set_def proxy_get_hook Let_def\<close>)
qed

lemma proxy_get_updated:
  "CHR ''.'' \<notin> set h \<Longrightarrow> proxy_get (AList.update h (SObj l) target) h = Inr (SObj l)"
  by (simp add: proxy_get_hook current_slice_def update_conv')

lemma emitBinding_frame:
  assumes sea: "\<And>el k v l d s s'. sea el k v l d s = Inr s' \<Longrightarrow> same_frame s s'"
    and "emitBinding sea h key b st = Inr st'"
  shows "store st' = store st \<and> reevals st' = reevals st @ [Reeval key (element b) (property b)]"
proof -
  from assms(2) obtain res where
    "sea (element b) (property b) res (Some key) (DepthNum 0)
       (st\<lparr>evlog := evlog st @ [Reeval key (element b) (property b)]\<rparr>) = Inr st'"
    by (auto simp: emitBinding_def split: sum.splits option.splits if_splits)
  from sea[OF this] show ?thesis
    by (simp add: same_frame_def reevals_def)
qed

lemma emitAll_frame:
  assumes sea: "\<And>el k v l d s s'. sea el k v l d s = Inr s' \<Longrightarrow> same_frame s s'"
  shows "emitAll sea h key bs st = Inr st' \<Longrightarrow>
         store st' = store st
         \<and> reevals st' = reevals st @ map (\<lambda>b. Reeval key (element b) (property b)) bs"
proof (induction bs arbitrary: st)
  case Nil
  then show ?case by simp
next
  case (Cons b bs)
  from Cons.prems obtain st1 where e: "emitBinding sea h key b st = Inr st1"
    and r: "emitAll sea h key bs st1 = Inr st'"
    by (auto split: sum.splits)
  from emitBinding_frame[OF sea e] Cons.IH[OF r] show ?case by simp
qed

lemma proxy_set_frame:
  assumes sea: "\<And>el k v l d s s'. sea el k v l d s = Inr s' \<Longrightarrow> same_frame s s'"
    and "proxy_set sea h key v st = Inr st'"
  shows "store_set (store st) key v = Inr (store st')
         \<and> reevals st' = reevals st @ map (\<lambda>b. Reeval key (element b) (property b)) (registered st key)"
proof -
  from assms(2) obtain target' where t: "store_set (store st) key v = Inr target'"
    by (auto simp: proxy_set_def split: sum.splits)
  show ?thesis
  proof (cases "map_of (bindings st) key")
    case None
    with assms(2) t show ?thesis
      by (auto simp: proxy_set_def bindings_at_def registered_def reevals_def split: if_splits)
  next
    case (Some bs)
    with assms(2) t have "emitAll sea h key bs (st\<lparr>store := target'\<rparr>) = Inr st'"
      by (simp add: proxy_set_def bindings_at_def)
    from emitAll_frame[OF sea this] Some t show ?thesis
      by (simp add: registered_def reevals_def)
  qed
qed

lemma proxy_set_either:
  assumes "proxy_set1 hst fuel key v st = Inr st' \<or> proxy_set2 hst fuel key v st = Inr st'"
  shows "store_set (store st) key v = Inr (store st')
         \<and> reevals st' = reevals st @ map (\<lambda>b. Reeval key (element b) (property b)) (registered st key)"
  using assms proxy_set_frame[of "setElementAttribute1 hst fuel" hst key v st st']
    proxy_set_frame[of "setElementAttribute2 hst fuel" hst key v st st']
  by (auto simp: proxy_set1_def proxy_set2_def dest: frame1(3) frame2(3))

lemma greeting_strings:
  "\<not> functionPattern ''strong''" "\<not> functionPattern ''John''"
  by code_simp+

text \<open>
  C1. The claim: a write to a hook re-evaluates every binding registered under it, in
  order, and applies each value before it returns. In src/html.js the application of a
  value under \<open>children\<close> or \<open>child\<close> renders each item with the store slice as its
  \<open>callback\<close> argument, and \<open>render\<close> ends with \<open>if (callback) { callback(element, data); }\<close>,
  where the name \<open>data\<close> is not defined. After a write the slice is an object, so the
  re-evaluation of a \<open>child\<close> binding that yields an element raises a ReferenceError: the
  write does not return, the element is not attached and the bindings that follow are not
  re-evaluated. On the same state src/unnamed/part_001 does what the claim says.
\<close>

theorem write_stops_at_child_binding_in_html_js:
  "proxy_set1 browser 1 ''identity'' john_doe greeting = Inl ReferenceError
   \<and> proxy_set2 browser 1 ''identity'' john_doe greeting
     = Inr (greeting
         \<lparr>store := [(''identity'', SObj [(''first_name'', SStr ''John''), (''last_name'', SStr ''Doe'')])],
          nodes := [Elem xhtml ''span'' [] [2], Elem xhtml ''span'' [] [4],
                    Elem xhtml ''strong'' [] [3], Text ''John'', Text ''Doe''],
          evlog := [Reeval ''identity'' 0 ''child'', Reeval ''identity'' 1 ''textContent'']\<rparr>)"
proof -
  have s: "store_set [] ''identity'' john_doe
      = Inr [(''identity'', SObj [(''first_name'', SStr ''John''), (''last_name'', SStr ''Doe'')])]"
    by (simp add: john_doe_def store_set_def proxy_get_def inherited_object object_prototype_def
        Let_def)
  have g: "proxy_get [(''identity'', SObj [(''first_name'', SStr ''John''), (''last_name'', SStr ''Doe'')])]
      ''identity'' = Inr (SObj [(''first_name'', SStr ''John''), (''last_name'', SStr ''Doe'')])"
    "proxy_get [(''identity'', SObj [(''first_name'', SStr ''John''), (''last_name'', SStr ''Doe'')])]
      ''null'' = Inr SNull"
    by (simp_all add: proxy_get_def inherited_object object_prototype_def)
  have st: "store greeting = []"
    by (simp add: greeting_def)
  have n: "''strong'' \<notin> set object_prototype"
    by (simp add: object_prototype_def)
  have 1: "proxy_set1 browser 1 ''identity'' john_doe greeting = Inl ReferenceError"
    by (simp add: proxy_set1_def proxy_set_def st s bindings_at_def emitBinding_def g strong_first_name_def
        setElementAttribute1.simps nonAttributes_def listener_key_def children_clear_def
        children_items_def has_element_children_def childNodes_def elem_at_def children1.simps
        render1.simps pruned1_def tagName1_def getNamespace1_def namespaces_def n
        createElementNS_def new_node_def attrs1.simps attribute_step_def template_value_def
        greeting_strings setTextContent_def createTextNode_def set_childNodes_def put_node_def
        finish1_def greeting_def browser_def)
  have 2: "proxy_set2 browser 1 ''identity'' john_doe greeting
     = Inr (greeting
         \<lparr>store := [(''identity'', SObj [(''first_name'', SStr ''John''), (''last_name'', SStr ''Doe'')])],
          nodes := [Elem xhtml ''span'' [] [2], Elem xhtml ''span'' [] [4],
                    Elem xhtml ''strong'' [] [3], Text ''John'', Text ''Doe''],
          evlog := [Reeval ''identity'' 0 ''child'', Reeval ''identity'' 1 ''textContent'']\<rparr>)"
    by (simp add: proxy_set2_def proxy_set_def st s bindings_at_def emitBinding_def g strong_first_name_def
        last_name_def
        setElementAttribute2.simps nonAttributes_def listener_key_def children_clear_def
        children_items2_def has_element_children_def childNodes_def elem_at_def children2.simps
        render2.simps pruned2_def tagName2_def getNamespace2_def namespaces_def n
        createElementNS_def new_node_def attrs2.simps attribute_step_def template_value_def
        greeting_strings setTextContent_def createTextNode_def set_childNodes_def put_node_def
        dom_appendChild_def finish2_def greeting_def browser_def)
  from 1 2 show ?thesis ..
qed






text \<open>
  C3. The claim: a write of a scalar or an array replaces the slice, and a read then
  yields the scalar or array. The \<open>set\<close> trap has no replacing path: it always stores the
  object \<open>listener\<close>, a copy of the former slice into which \<open>deepMerge\<close> has merged the
  enumerable members of the written value, and a number, a boolean and \<open>null\<close> have none.
\<close>

theorem write_number_counterexample:
  "proxy_set1 browser 1 ''user'' (JNum 5) (blank\<lparr>store := [(''user'', SObj [(''name'', SStr ''Ann'')])]\<rparr>)
     = Inr (blank\<lparr>store := [(''user'', SObj [(''name'', SStr ''Ann'')])]\<rparr>)
   \<and> proxy_get [(''user'', SObj [(''name'', SStr ''Ann'')])] ''user''
     = Inr (SObj [(''name'', SStr ''Ann'')])
   \<and> proxy_get [(''user'', SObj [(''name'', SStr ''Ann'')])] ''user'' \<noteq> Inr (stored (JNum 5))"
  by (simp add: blank_def proxy_set1_def proxy_set_def store_set_def proxy_get_def
      merged_in_place_def bindings_at_def object_prototype_def Let_def)

text \<open>
  C3, amended. For a top-level key \<open>h\<close> and a written value that is a number, a boolean
  or \<open>null\<close>, the write does not replace the slice: it stores a plain object with the
  members the slice had (the empty object when the hook held no object), and after a
  write that returns, in either variant, a read of \<open>h\<close> yields that object.
\<close>

theorem write_scalar_keeps_the_slice:
  assumes "CHR ''.'' \<notin> set h"
    and "partial = JNull \<or> partial = JBool b \<or> partial = JNum n"
  shows "store_set (store st) h partial
           = Inr (AList.update h (SObj (spread (current_slice (store st) h))) (store st))
       \<and> (proxy_set1 hst fuel h partial st = Inr st' \<or> proxy_set2 hst fuel h partial st = Inr st'
            \<longrightarrow> proxy_get (store st') h = Inr (SObj (spread (current_slice (store st) h))))"
proof -
  from assms(2) have m: "deepMerge (spread (current_slice (store st) h)) partial
      = spread (current_slice (store st) h)"
    by auto
  from assms(2) have np: "\<not> names_proto partial"
    by auto
  have s: "store_set (store st) h partial
           = Inr (AList.update h (SObj (spread (current_slice (store st) h))) (store st))"
    using store_set_hook[OF assms(1) np, of "store st"] m by simp
  show ?thesis
  proof (intro conjI impI)
    show "store_set (store st) h partial
           = Inr (AList.update h (SObj (spread (current_slice (store st) h))) (store st))"
      by (rule s)
  next
    assume "proxy_set1 hst fuel h partial st = Inr st' \<or> proxy_set2 hst fuel h partial st = Inr st'"
    from proxy_set_either[OF this] s
    have "store st' = AList.update h (SObj (spread (current_slice (store st) h))) (store st)"
      by simp
    then show "proxy_get (store st') h = Inr (SObj (spread (current_slice (store st) h)))"
      by (simp add: proxy_get_updated[OF assms(1)])
  qed
qed

theorem write_scalar_keeps_the_slice_witness:
  "CHR ''.'' \<notin> set ''user''
   \<and> (JNum 5 = JNull \<or> JNum 5 = JBool True \<or> JNum 5 = JNum 5)
   \<and> (proxy_set1 browser 1 ''user'' (JNum 5) (blank\<lparr>store := [(''user'', SObj [(''name'', SStr ''Ann'')])]\<rparr>)
        = Inr (blank\<lparr>store := [(''user'', SObj [(''name'', SStr ''Ann'')])]\<rparr>)
      \<or> proxy_set2 browser 1 ''user'' (JNum 5) (blank\<lparr>store := [(''user'', SObj [(''name'', SStr ''Ann'')])]\<rparr>)
        = Inr (blank\<lparr>store := [(''user'', SObj [(''name'', SStr ''Ann'')])]\<rparr>))
   \<and> store_set [(''user'', SObj [(''name'', SStr ''Ann'')])] ''user'' (JNum 5)
       = Inr [(''user'', SObj [(''name'', SStr ''Ann'')])]
   \<and> proxy_get [(''user'', SObj [(''name'', SStr ''Ann'')])] ''user''
       = Inr (SObj [(''name'', SStr ''Ann'')])"
proof -
  have run: "proxy_set1 browser 1 ''user'' (JNum 5) (blank\<lparr>store := [(''user'', SObj [(''name'', SStr ''Ann'')])]\<rparr>)
        = Inr (blank\<lparr>store := [(''user'', SObj [(''name'', SStr ''Ann'')])]\<rparr>)"
    by (simp add: blank_def proxy_set1_def proxy_set_def store_set_def proxy_get_def
        merged_in_place_def bindings_at_def object_prototype_def Let_def)
  have nd: "CHR ''.'' \<notin> set ''user''" by simp
  have sc: "JNum 5 = JNull \<or> JNum 5 = JBool True \<or> JNum 5 = JNum 5" by simp
  show ?thesis
    using run write_scalar_keeps_the_slice
      [OF nd sc, of "blank\<lparr>store := [(''user'', SObj [(''name'', SStr ''Ann'')])]\<rparr>" browser 1
         "blank\<lparr>store := [(''user'', SObj [(''name'', SStr ''Ann'')])]\<rparr>"]
    by (simp add: current_slice_def)
qed
section \<open>Discarded subtrees\<close>

text \<open>
  C6. The claim: when a subtree is discarded through the \<open>children\<close>/\<open>child\<close> path, every
  binding whose target is a node of that subtree, at any depth, leaves the registry.
  \<open>clearChildren\<close> compares \<open>bind.element\<close> with each child node of the element only.
  On \<open><div><section><span>Jo</span></section></div>\<close> with bindings on the \<open>section\<close>
  and on the \<open>span\<close>, re-applying \<open>children: []\<close> to the \<open>div\<close> (in either variant) empties
  it and removes the binding of the \<open>section\<close>; the binding of the \<open>span\<close>, a node of the
  discarded subtree, stays registered under \<open>person\<close>.
\<close>

theorem clearChildren_leaves_bindings_of_deeper_descendants:
  "setElementAttribute1 browser 1 0 ''children'' (DArr []) None (DepthNum 0) nested_span
     = Inr (nested_span
         \<lparr>bindings := [(''person'',
              [\<lparr>element = 2, func = DFun ''(person) => person.name'' person_name,
                 property = ''textContent''\<rparr>])],
          nodes := [Elem xhtml ''div'' [] [], Elem xhtml ''section'' [(''class'', ''Jo'')] [2],
                    Elem xhtml ''span'' [] [3], Text ''Jo'']\<rparr>)
   \<and> setElementAttribute2 browser 1 0 ''children'' (DArr []) None (DepthNum 0) nested_span
     = Inr (nested_span
         \<lparr>bindings := [(''person'',
              [\<lparr>element = 2, func = DFun ''(person) => person.name'' person_name,
                 property = ''textContent''\<rparr>])],
          nodes := [Elem xhtml ''div'' [] [], Elem xhtml ''section'' [(''class'', ''Jo'')] [2],
                    Elem xhtml ''span'' [] [3], Text ''Jo'']\<rparr>)
   \<and> descendants (nodes nested_span) 4 (childNodes nested_span 0) = [1, 2, 3]
   \<and> map element (registered (clearChildren 0 nested_span) ''person'') = [2]"
proof -
  have c: "clearChildren 0 nested_span
     = nested_span
         \<lparr>bindings := [(''person'',
              [\<lparr>element = 2, func = DFun ''(person) => person.name'' person_name,
                 property = ''textContent''\<rparr>])],
          nodes := [Elem xhtml ''div'' [] [], Elem xhtml ''section'' [(''class'', ''Jo'')] [2],
                    Elem xhtml ''span'' [] [3], Text ''Jo'']\<rparr>"
    by (simp add: clearChildren_def clearChild_def removeChild_def childNodes_def elem_at_def
        put_node_def nested_span_def)
  have g: "proxy_get (store nested_span) ''null'' = Inr SNull"
    by (simp add: proxy_get_def nested_span_def inherited_object object_prototype_def)
  have k: "children_clear 0 (DArr []) nested_span = Inr (clearChildren 0 nested_span)"
    by (simp add: children_clear_def has_element_children_def childNodes_def elem_at_def
        nested_span_def)
  have d: "descendants (nodes nested_span) 4 (childNodes nested_span 0) = [1, 2, 3]"
    by (simp add: nested_span_def childNodes_def elem_at_def kids_def eval_nat_numeral)
  have r: "map element (registered (clearChildren 0 nested_span) ''person'') = [2]"
    by (simp add: c registered_def)
  show ?thesis
    using c d r
    by (simp add: setElementAttribute1.simps setElementAttribute2.simps g k nonAttributes_def
        listener_key_def children_items_def children_items2_def children1.simps children2.simps)
qed

section \<open>Recovering an evaluator from its source text\<close>

lemma attrs1_append:
  "attrs1 h n t el d (ks1 @ ks2) st =
     (case attrs1 h n t el d ks1 st of Inl e \<Rightarrow> Inl e | Inr st1 \<Rightarrow> attrs1 h n t el d ks2 st1)"
proof (induction ks1 arbitrary: st)
  case Nil
  show ?case by (simp add: attrs1.simps)
next
  case (Cons k ks)
  show ?case
    by (simp add: attrs1.simps Cons.IH split: sum.splits prod.splits option.splits)
qed

lemma attrs2_append:
  "attrs2 h n t el d (ks1 @ ks2) st =
     (case attrs2 h n t el d ks1 st of Inl e \<Rightarrow> Inl e | Inr st1 \<Rightarrow> attrs2 h n t el d ks2 st1)"
proof (induction ks1 arbitrary: st)
  case Nil
  show ?case by (simp add: attrs2.simps)
next
  case (Cons k ks)
  show ?case
    by (simp add: attrs2.simps Cons.IH split: sum.splits prod.splits option.splits)
qed

lemma attribute_step_raises:
  assumes "isStringifiedFunction (member t key)"
    and "evalJS h (''return ('' @ to_string (member t key) @ '')'') = Inl e"
  shows "attribute_step h t el key st = Inl e"
  using assms by (simp add: attribute_step_def template_value_def parseStringifiedFunction_def)

lemma elem_at_nodes: "nodes st' = nodes st \<Longrightarrow> elem_at st' el = elem_at st el"
  by (simp add: elem_at_def)

lemma nodes_pushBinding: "pushBinding k b st = Inr st' \<Longrightarrow> nodes st' = nodes st"
  by (auto simp: pushBinding_def split: found.splits)

lemma nodes_hydrate_attr: "nodes (hydrate_attr h el l a st) = nodes st"
  by (auto simp: hydrate_attr_def recover_def split: sum.splits if_splits dest: nodes_pushBinding)

lemma nodes_fold_hydrate_attr: "nodes (fold (hydrate_attr h el l) as st) = nodes st"
  by (induction as arbitrary: st) (simp_all add: nodes_hydrate_attr)

lemma nodes_hydrate_element: "nodes (hydrate_element h el st) = nodes st"
  by (simp add: hydrate_element_def ensure_bindings_def nodes_fold_hydrate_attr
      split: option.splits prod.splits found.splits)

text \<open>The scan only adds bindings.\<close>

lemma registered_pushBinding:
  "pushBinding k b st = Inr st' \<Longrightarrow> set (registered st l) \<subseteq> set (registered st' l)"
  by (auto simp: pushBinding_def registered_def bindings_at_def update_conv'
      split: found.splits option.splits if_splits)

lemma registered_hydrate_attr:
  "set (registered st l') \<subseteq> set (registered (hydrate_attr h el l a st) l')"
  by (auto simp: hydrate_attr_def recover_def split: sum.splits if_splits
      dest: registered_pushBinding)

lemma registered_fold_hydrate_attr:
  "set (registered st l') \<subseteq> set (registered (fold (hydrate_attr h el l) as st) l')"
proof (induction as arbitrary: st)
  case Nil
  show ?case by simp
next
  case (Cons a as)
  from registered_hydrate_attr[of st l' h el l a] Cons.IH[of "hydrate_attr h el l a st"]
  show ?case by auto
qed

lemma registered_ensure_bindings:
  "set (registered st l') \<subseteq> set (registered (ensure_bindings l st) l')"
  by (auto simp: ensure_bindings_def registered_def bindings_at_def update_conv'
      split: found.splits option.splits if_splits)

lemma registered_hydrate_element:
  "set (registered st l') \<subseteq> set (registered (hydrate_element h el st) l')"
proof (cases "elem_at st el")
  case None
  then show ?thesis by (simp add: hydrate_element_def)
next
  case (Some p)
  obtain ns tag as ks where p: "p = (ns, tag, as, ks)" by (cases p)
  show ?thesis
  proof (cases "map_of as ''data-listener-id''")
    case None
    with Some p show ?thesis by (simp add: hydrate_element_def)
  next
    case l: (Some l)
    from registered_ensure_bindings[of st l' l]
      registered_fold_hydrate_attr[of "ensure_bindings l st" l' h el l as]
    show ?thesis
      using Some p l by (auto simp: hydrate_element_def)
  qed
qed

lemma registered_hydrate:
  "set (registered st l') \<subseteq> set (registered (hydrate h els st) l')"
proof (induction els arbitrary: st)
  case Nil
  show ?case by (simp add: hydrate_def)
next
  case (Cons x xs)
  from registered_hydrate_element[of st l' h x] Cons.IH[of "hydrate_element h x st"]
  show ?case by (auto simp: hydrate_def)
qed

text \<open>An attribute that the engine accepts registers its binding.\<close>

lemma hydrate_attr_registers:
  assumes "l \<notin> set object_prototype" and "starts_with ''data-bind-to-'' name"
    and "evalJS h (''return '' @ src) = Inr fn" and "is_function fn"
  shows "\<lparr>element = el, func = fn, property = bound_property name\<rparr>
           \<in> set (registered (hydrate_attr h el l (name, src) st) l)"
  using assms
  by (auto simp: hydrate_attr_def recover_def pushBinding_def bindings_at_def registered_def
      update_conv' split: option.splits)

lemma fold_hydrate_attr_registers:
  assumes "l \<notin> set object_prototype" and "starts_with ''data-bind-to-'' name"
    and "evalJS h (''return '' @ src) = Inr fn" and "is_function fn"
  shows "(name, src) \<in> set as \<Longrightarrow>
         \<lparr>element = el, func = fn, property = bound_property name\<rparr>
           \<in> set (registered (fold (hydrate_attr h el l) as st) l)"
proof (induction as arbitrary: st)
  case Nil
  then show ?case by simp
next
  case (Cons a as)
  show ?case
  proof (cases "a = (name, src)")
    case True
    from hydrate_attr_registers[OF assms, of el st]
      registered_fold_hydrate_attr[of "hydrate_attr h el l (name, src) st" l h el l as]
    show ?thesis using True by auto
  next
    case False
    with Cons.prems have "(name, src) \<in> set as" by simp
    from Cons.IH[OF this, of "hydrate_attr h el l a st"] show ?thesis by simp
  qed
qed

lemma hydrate_element_registers:
  assumes "l \<notin> set object_prototype" and "starts_with ''data-bind-to-'' name"
    and "evalJS h (''return '' @ src) = Inr fn" and "is_function fn"
    and "elem_at st el = Some (ns, tag, as, ks)" and "map_of as ''data-listener-id'' = Some l"
    and "(name, src) \<in> set as"
  shows "\<lparr>element = el, func = fn, property = bound_property name\<rparr>
           \<in> set (registered (hydrate_element h el st) l)"
  using fold_hydrate_attr_registers[OF assms(1-4) assms(7), of el "ensure_bindings l st"] assms(5,6)
  by (simp add: hydrate_element_def)

lemma hydrate_registers:
  assumes "l \<notin> set object_prototype" and "starts_with ''data-bind-to-'' name"
    and "evalJS h (''return '' @ src) = Inr fn" and "is_function fn"
    and "map_of as ''data-listener-id'' = Some l" and "(name, src) \<in> set as"
  shows "el \<in> set els \<Longrightarrow> elem_at st el = Some (ns, tag, as, ks) \<Longrightarrow>
         \<lparr>element = el, func = fn, property = bound_property name\<rparr>
           \<in> set (registered (hydrate h els st) l)"
proof (induction els arbitrary: st)
  case Nil
  then show ?case by simp
next
  case (Cons x xs)
  show ?case
  proof (cases "x = el")
    case True
    from hydrate_element_registers[OF assms(1-4) Cons.prems(2) assms(5,6), of ]
      registered_hydrate[of "hydrate_element h el st" l h xs]
    show ?thesis using True by (auto simp: hydrate_def)
  next
    case False
    with Cons.prems have m: "el \<in> set xs" by simp
    have "elem_at (hydrate_element h x st) el = Some (ns, tag, as, ks)"
      using Cons.prems(2) by (simp add: elem_at_nodes[OF nodes_hydrate_element])
    from Cons.IH[OF m this] show ?thesis by (simp add: hydrate_def)
  qed
qed
text \<open>
  C8. Recovery fails in two ways. At the explicit conversion, \<open>parseStringifiedFunction\<close>
  raises: an error of its own for a text that the pattern does not recognise, the
  engine's error for a recognised text that the engine rejects. \<open>render\<close> converts the
  recognised texts only (another text is applied as the plain value it is) and does not
  catch the error: as soon as its attribute pass reaches a key that holds a rejected
  text, \<open>render\<close> raises the engine's error to its caller, in both variants. In the
  hydration scan the failure is caught: the attribute that fails leaves the state as it
  is, and every attribute that the engine accepts, on any element of the scan, has its
  binding registered when the scan ends, whatever else failed.
\<close>

theorem evaluator_recovery_fails_in_two_ways:
  "(\<not> isStringifiedFunction str0 \<longrightarrow>
       parseStringifiedFunction h str0 = Inl InvalidStringifiedFunction
     \<and> (member t0 key0 = str0 \<longrightarrow> template_value h t0 key0 = Inr str0))
   \<and> (isStringifiedFunction (member t key)
        \<and> evalJS h (''return ('' @ to_string (member t key) @ '')'') = Inl e \<longrightarrow>
          parseStringifiedFunction h (member t key) = Inl e
        \<and> (\<not> pruned1 t \<and> \<not> is_string t \<and> fuel \<noteq> 0 \<and> own_keys t = ks1 @ key # ks2
             \<and> createElementNS h (getNamespace1 h (tagName1 t)) (tagName1 t) st = Inr (el, st0)
             \<and> attrs1 h (fuel - 1) t el d ks1 st0 = Inr st1 \<longrightarrow>
               render1 h fuel t cb d st = Inl e)
        \<and> (\<not> pruned2 t \<and> \<not> is_string t \<and> fuel \<noteq> 0 \<and> own_keys t = ks1 @ key # ks2
             \<and> createElementNS h (getNamespace2 h (tagName2 t)) (tagName2 t) st = Inr (el, st0)
             \<and> attrs2 h (fuel - 1) t el d ks1 st0 = Inr st2 \<longrightarrow>
               render2 h fuel t d st = Inl e))
   \<and> (evalJS h (''return '' @ snd a) = Inl e' \<longrightarrow> hydrate_attr h el' l' a s = s)
   \<and> (x \<in> set els \<and> elem_at s x = Some (ns, tag, as, ks)
        \<and> map_of as ''data-listener-id'' = Some l \<and> l \<notin> set object_prototype
        \<and> (name, src) \<in> set as \<and> starts_with ''data-bind-to-'' name
        \<and> evalJS h (''return '' @ src) = Inr fn \<and> is_function fn \<longrightarrow>
          \<lparr>element = x, func = fn, property = bound_property name\<rparr>
            \<in> set (registered (hydrate h els s) l))"
proof (intro conjI impI)
  assume "\<not> isStringifiedFunction str0"
  then show "parseStringifiedFunction h str0 = Inl InvalidStringifiedFunction"
    by (simp add: parseStringifiedFunction_def)
next
  assume "\<not> isStringifiedFunction str0" and "member t0 key0 = str0"
  then show "template_value h t0 key0 = Inr str0"
    by (simp add: template_value_def)
next
  assume a: "isStringifiedFunction (member t key)
        \<and> evalJS h (''return ('' @ to_string (member t key) @ '')'') = Inl e"
  then show "parseStringifiedFunction h (member t key) = Inl e"
    by (simp add: parseStringifiedFunction_def)
next
  assume a: "isStringifiedFunction (member t key)
        \<and> evalJS h (''return ('' @ to_string (member t key) @ '')'') = Inl e"
  then have s: "attribute_step h t el key st' = Inl e" for st'
    by (simp add: attribute_step_raises)
  assume r: "\<not> pruned1 t \<and> \<not> is_string t \<and> fuel \<noteq> 0 \<and> own_keys t = ks1 @ key # ks2
             \<and> createElementNS h (getNamespace1 h (tagName1 t)) (tagName1 t) st = Inr (el, st0)
             \<and> attrs1 h (fuel - 1) t el d ks1 st0 = Inr st1"
  then have "attrs1 h (fuel - 1) t el d (own_keys t) st0 = Inl e"
    by (simp add: attrs1_append attrs1.simps s)
  with r show "render1 h fuel t cb d st = Inl e"
    by (subst render1.simps) simp
next
  assume a: "isStringifiedFunction (member t key)
        \<and> evalJS h (''return ('' @ to_string (member t key) @ '')'') = Inl e"
  then have s: "attribute_step h t el key st' = Inl e" for st'
    by (simp add: attribute_step_raises)
  assume r: "\<not> pruned2 t \<and> \<not> is_string t \<and> fuel \<noteq> 0 \<and> own_keys t = ks1 @ key # ks2
             \<and> createElementNS h (getNamespace2 h (tagName2 t)) (tagName2 t) st = Inr (el, st0)
             \<and> attrs2 h (fuel - 1) t el d ks1 st0 = Inr st2"
  then have "attrs2 h (fuel - 1) t el d (own_keys t) st0 = Inl e"
    by (simp add: attrs2_append attrs2.simps s)
  with r show "render2 h fuel t d st = Inl e"
    by (subst render2.simps) simp
next
  assume "evalJS h (''return '' @ snd a) = Inl e'"
  then show "hydrate_attr h el' l' a s = s"
    by (simp add: hydrate_attr_def recover_def)
next
  assume "x \<in> set els \<and> elem_at s x = Some (ns, tag, as, ks)
        \<and> map_of as ''data-listener-id'' = Some l \<and> l \<notin> set object_prototype
        \<and> (name, src) \<in> set as \<and> starts_with ''data-bind-to-'' name
        \<and> evalJS h (''return '' @ src) = Inr fn \<and> is_function fn"
  then show "\<lparr>element = x, func = fn, property = bound_property name\<rparr>
            \<in> set (registered (hydrate h els s) l)"
    using hydrate_registers[of l name h src fn as x els s ns tag ks] by blast
qed
lemma pattern_examples:
  "functionPattern ''(person) => ''" "\<not> functionPattern ''person => person.name''"
  "functionPattern ''(person) => person.name''"
  "\<not> functionPattern ''p''" "\<not> functionPattern ''note''"
  by code_simp+

lemma scan_strings:
  "starts_with ''data-bind-to-'' ''data-bind-to-title''"
  "starts_with ''data-bind-to-'' ''data-bind-to-text-content''"
  "starts_with ''data-bind-to-'' ''data-bind-to-class''"
  "\<not> starts_with ''data-bind-to-'' ''data-listener-id''"
  "bound_property ''data-bind-to-class'' = ''class''"
  "bound_property ''data-bind-to-text-content'' = ''textContent''"
  "\<not> hasUpperCase ''class''" "dom_name xhtml ''class'' = ''class''"
  by code_simp+

theorem evaluator_recovery_fails_in_two_ways_witness:
  "\<not> isStringifiedFunction (DStr ''person => person.name'')
   \<and> parseStringifiedFunction parsing_browser (DStr ''person => person.name'')
       = Inl InvalidStringifiedFunction
   \<and> template_value parsing_browser (DObj [(''title'', DStr ''person => person.name'')]) ''title''
       = Inr (DStr ''person => person.name'')
   \<and> isStringifiedFunction (member broken_note ''title'')
   \<and> evalJS parsing_browser (''return ('' @ to_string (member broken_note ''title'') @ '')'')
       = Inl SyntaxError
   \<and> own_keys broken_note = [''tagName'', ''class''] @ ''title'' # []
   \<and> attrs1 parsing_browser 0 broken_note 0 (DepthNum 0) [''tagName'', ''class'']
        (blank\<lparr>nodes := [Elem xhtml ''p'' [] []]\<rparr>)
       = Inr (blank\<lparr>nodes := [Elem xhtml ''p'' [(''class'', ''note'')] []]\<rparr>)
   \<and> render1 parsing_browser 1 broken_note SUndef (DepthNum 0) blank = Inl SyntaxError
   \<and> render2 parsing_browser 1 broken_note (DepthNum 0) blank = Inl SyntaxError
   \<and> evalJS parsing_browser (''return '' @ snd (''data-bind-to-title'', ''(person) => ''))
       = Inl SyntaxError
   \<and> hydrate_attr parsing_browser 0 ''person'' (''data-bind-to-title'', ''(person) => '') served_page
       = served_page
   \<and> \<lparr>element = 1, func = DFun ''(person) => person.name'' person_name, property = ''class''\<rparr>
       \<in> set (registered (hydrate parsing_browser [0, 1] served_page) ''person'')
   \<and> hydrate parsing_browser [0, 1] served_page
       = served_page\<lparr>bindings := [(''person'',
           [\<lparr>element = 0, func = DFun ''(person) => person.name'' person_name,
              property = ''textContent''\<rparr>,
            \<lparr>element = 1, func = DFun ''(person) => person.name'' person_name,
              property = ''class''\<rparr>])]\<rparr>"
proof -
  have k: "own_keys broken_note = [''tagName'', ''class''] @ ''title'' # []"
    by (simp add: broken_note_def)
  have m: "member broken_note ''title'' = DStr ''(person) => ''"
    "member broken_note ''tagName'' = DStr ''p''" "member broken_note ''class'' = DStr ''note''"
    "member broken_note ''if'' = DUndef"
    by (simp_all add: broken_note_def)
  have e1: "evalJS parsing_browser ''return ((person) => )'' = Inl SyntaxError"
    "evalJS parsing_browser ''return (person) => '' = Inl SyntaxError"
    "evalJS parsing_browser ''return (person) => person.name''
       = Inr (DFun ''(person) => person.name'' person_name)"
    by (simp_all add: parsing_browser_def)
  have np: "\<not> pruned1 broken_note" "\<not> pruned2 broken_note" "\<not> is_string broken_note"
    by (simp_all add: pruned1_def pruned2_def broken_note_def)
  have tg: "tagName1 broken_note = DStr ''p''" "tagName2 broken_note = DStr ''p''"
    by (simp_all add: tagName1_def tagName2_def m)
  have c: "createElementNS parsing_browser (getNamespace1 parsing_browser (DStr ''p'')) (DStr ''p'') blank
      = Inr (0, blank\<lparr>nodes := [Elem xhtml ''p'' [] []]\<rparr>)"
    "createElementNS parsing_browser (getNamespace2 parsing_browser (DStr ''p'')) (DStr ''p'') blank
      = Inr (0, blank\<lparr>nodes := [Elem xhtml ''p'' [] []]\<rparr>)"
    by (simp_all add: createElementNS_def getNamespace1_def getNamespace2_def namespaces_def
        object_prototype_def new_node_def parsing_browser_def blank_def)
  have g: "proxy_get [] ''null'' = Inr SNull"
    by (simp add: proxy_get_def inherited_object object_prototype_def)
  have a1: "attrs1 parsing_browser 0 broken_note 0 (DepthNum 0) [''tagName'', ''class'']
        (blank\<lparr>nodes := [Elem xhtml ''p'' [] []]\<rparr>)
       = Inr (blank\<lparr>nodes := [Elem xhtml ''p'' [(''class'', ''note'')] []]\<rparr>)"
    by (simp add: attrs1.simps attribute_step_def template_value_def m pattern_examples
        setElementAttribute1.simps g listener_key_def nonAttributes_def setAttribute_def
        dom_removeAttribute_def dom_setAttribute_def elem_at_def put_node_def scan_strings
        parsing_browser_def blank_def)
  have a2: "attrs2 parsing_browser 0 broken_note 0 (DepthNum 0) [''tagName'', ''class'']
        (blank\<lparr>nodes := [Elem xhtml ''p'' [] []]\<rparr>)
       = Inr (blank\<lparr>nodes := [Elem xhtml ''p'' [(''class'', ''note'')] []]\<rparr>)"
    by (simp add: attrs2.simps attribute_step_def template_value_def m pattern_examples
        setElementAttribute2.simps g listener_key_def nonAttributes_def setAttribute_def
        dom_removeAttribute_def dom_setAttribute_def elem_at_def put_node_def scan_strings
        parsing_browser_def blank_def)
  have x: "elem_at served_page 1
      = Some (xhtml, ''span'', [(''data-listener-id'', ''person''),
                  (''data-bind-to-class'', ''(person) => person.name'')], [])"
    by (simp add: elem_at_def served_page_def)
  have l: "''person'' \<notin> set object_prototype"
    by (simp add: object_prototype_def)
  have run: "hydrate parsing_browser [0, 1] served_page
       = served_page\<lparr>bindings := [(''person'',
           [\<lparr>element = 0, func = DFun ''(person) => person.name'' person_name,
              property = ''textContent''\<rparr>,
            \<lparr>element = 1, func = DFun ''(person) => person.name'' person_name,
              property = ''class''\<rparr>])]\<rparr>"
    by (simp add: hydrate_def hydrate_element_def elem_at_def served_page_def ensure_bindings_def
        bindings_at_def l hydrate_attr_def recover_def e1 scan_strings pushBinding_def)
  show ?thesis
    using evaluator_recovery_fails_in_two_ways
      [where ?str0.0 = "DStr ''person => person.name''" and h = parsing_browser
         and key0 = "''title''" and ?t0.0 = "DObj [(''title'', DStr ''person => person.name'')]"
         and t = broken_note and key = "''title''" and e = SyntaxError and fuel = 1
         and ?ks1.0 = "[''tagName'', ''class'']" and ?ks2.0 = "[]" and st = blank and el = 0
         and ?st0.0 = "blank\<lparr>nodes := [Elem xhtml ''p'' [] []]\<rparr>"
         and ?st1.0 = "blank\<lparr>nodes := [Elem xhtml ''p'' [(''class'', ''note'')] []]\<rparr>"
         and ?st2.0 = "blank\<lparr>nodes := [Elem xhtml ''p'' [(''class'', ''note'')] []]\<rparr>"
         and d = "DepthNum 0" and cb = SUndef
         and a = "(''data-bind-to-title'', ''(person) => '')" and e' = SyntaxError
         and el' = 0 and l' = "''person''" and s = served_page
         and x = 1 and els = "[0, 1]" and ns = xhtml and tag = "''span''"
         and as = "[(''data-listener-id'', ''person''),
                    (''data-bind-to-class'', ''(person) => person.name'')]"
         and ks = "[]" and l = "''person''" and name = "''data-bind-to-class''"
         and src = "''(person) => person.name''"
         and fn = "DFun ''(person) => person.name'' person_name"]
      k m e1 np tg c a1 a2 x l run
    by (simp add: pattern_examples scan_strings)
qed
section \<open>The two variants compared\<close>


subsection \<open>The bootstrap scripts\<close>

lemma unlaid_simps [simp]:
  "unlaid (Elem ns tag as ks) = Elem ns tag as ks"
  "unlaid (Text s) = Text s"
  "unlaid (Bootstrap ps) = Bootstrap (filter is_json ps)"
  "unlaid (script_element ks) = script_element ks"
  by (simp_all add: unlaid_def script_element_def)

lemma nodes_unlaid [simp]: "nodes (unlaid_state st) = map unlaid (nodes st)"
  "store (unlaid_state st) = store st"
  by (simp_all add: unlaid_state_def)

lemma elem_at_unlaid [simp]: "elem_at (unlaid_state st) i = elem_at st i"
  by (cases "nodes st ! i") (simp_all add: elem_at_def)

lemma childNodes_unlaid [simp]: "childNodes (unlaid_state st) el = childNodes st el"
  by (simp add: childNodes_def)

lemma kids_unlaid [simp]: "kids (map unlaid ns) i = kids ns i"
  by (cases "ns ! i") (simp_all add: kids_def)

lemma descendants_unlaid [simp]: "descendants (map unlaid ns) fuel is = descendants ns fuel is"
  by (induction ns fuel "is" rule: descendants.induct) simp_all

lemma has_tag_unlaid [simp]: "has_tag (unlaid_state st) name = has_tag st name"
  by (rule ext) (simp add: has_tag_def)

lemma querySelectorAll_unlaid [simp]:
  "querySelectorAll (unlaid_state st) el name = querySelectorAll st el name"
  by (simp add: querySelectorAll_def)




























end
